theory Spec2Isabelle
  imports Complex_Main "HOL-Library.Multiset"
begin

section \<open>Python values used by the Seven Rays programs\<close>

text \<open>
  Python floats are modelled as exact real numbers, Python ints as \<open>int\<close>, strings as
  lists of (ASCII) characters, dicts loaded from JSON as association lists in file order,
  and every exception as a value of type \<open>error\<close> on the left of a sum.
  \<open>NotANumber\<close> is not an exception: it marks a numpy result that holds NaN, which
  has no counterpart among the real numbers.
\<close>

datatype error = KeyError | IndexError | ValueError | NotANumber

definition bind_r :: "error + 'a \<Rightarrow> ('a \<Rightarrow> error + 'b) \<Rightarrow> error + 'b" where
  "bind_r m f = (case m of Inl e \<Rightarrow> Inl e | Inr x \<Rightarrow> f x)"

text \<open>\<open>d[k]\<close> on a dict: the value, or KeyError.\<close>

definition getitem :: "('k \<times> 'v) list \<Rightarrow> 'k \<Rightarrow> error + 'v" where
  "getitem d k = (case map_of d k of None \<Rightarrow> Inl KeyError | Some v \<Rightarrow> Inr v)"

text \<open>\<open>xs[i]\<close> on a list: negative indices count from the end, out of range is IndexError.\<close>

definition py_index :: "'a list \<Rightarrow> int \<Rightarrow> error + 'a" where
  "py_index xs i =
     (if 0 \<le> i \<and> i < int (length xs) then Inr (xs ! nat i)
      else if i < 0 \<and> - int (length xs) \<le> i then Inr (xs ! nat (int (length xs) + i))
      else Inl IndexError)"

text \<open>Running a list of fallible computations in order; the first error is the result.\<close>

fun collect :: "(error + 'a) list \<Rightarrow> error + 'a list" where
  "collect [] = Inr []"
| "collect (m # ms) =
     (case m of Inl e \<Rightarrow> Inl e
      | Inr x \<Rightarrow> (case collect ms of Inl e \<Rightarrow> Inl e | Inr xs \<Rightarrow> Inr (x # xs)))"

text \<open>\<open>str(n)\<close> for an int: decimal digits, with a minus sign for negative numbers.\<close>

definition digit_char :: "nat \<Rightarrow> char" where
  "digit_char n = ''0123456789abcdef'' ! n"

function str_nat :: "nat \<Rightarrow> string" where
  "str_nat n = (if n < 10 then [digit_char n] else str_nat (n div 10) @ [digit_char (n mod 10)])"
  by pat_completeness auto
termination
  by (relation "measure (\<lambda>n. n)") auto

declare str_nat.simps [simp del]

definition str_int :: "int \<Rightarrow> string" where
  "str_int i = (if i < 0 then CHR ''-'' # str_nat (nat (- i)) else str_nat (nat i))"

text \<open>\<open>int(x)\<close> for a float: truncation towards zero.\<close>

definition py_trunc :: "real \<Rightarrow> int" where
  "py_trunc x = (if 0 \<le> x then \<lfloor>x\<rfloor> else \<lceil>x\<rceil>)"

text \<open>
  \<open>int(s, 16)\<close> on a string of hexadecimal digits. Python also accepts a sign,
  surrounding white space, a \<open>0x\<close> prefix and single underscores between digits; those
  forms do not occur in a two-digit slice of a hex colour and are reported as ValueError
  here, like every other string.
\<close>

definition hex_digits :: "(char \<times> nat) list" where
  "hex_digits = zip ''0123456789abcdef'' [0..<16] @ zip ''ABCDEF'' [10..<16]"

definition is_hex_digit :: "char \<Rightarrow> bool" where
  "is_hex_digit c = (map_of hex_digits c \<noteq> None)"

definition hex_val :: "char \<Rightarrow> nat" where
  "hex_val c = (case map_of hex_digits c of Some v \<Rightarrow> v | None \<Rightarrow> 0)"

definition int16 :: "string \<Rightarrow> error + int" where
  "int16 s = (if s \<noteq> [] \<and> list_all is_hex_digit s
              then Inr (int (foldl (\<lambda>acc c. 16 * acc + hex_val c) 0 s))
              else Inl ValueError)"

text \<open>\<open>'%02x' % n\<close>: lower-case hexadecimal, padded with a zero to two characters.\<close>

function hex_nat :: "nat \<Rightarrow> string" where
  "hex_nat n = (if n < 16 then [digit_char n] else hex_nat (n div 16) @ [digit_char (n mod 16)])"
  by pat_completeness auto
termination
  by (relation "measure (\<lambda>n. n)") auto

declare hex_nat.simps [simp del]

definition fmt_02x :: "int \<Rightarrow> string" where
  "fmt_02x n = (if n < 0 then CHR ''-'' # hex_nat (nat (- n))
                else (let h = hex_nat (nat n) in if length h < 2 then CHR ''0'' # h else h))"

section \<open>The taxonomy (extract\_meanings.py)\<close>

text \<open>
  The fields of a ray and of a plane that the programs read. The entries \<open>virtue\<close>,
  \<open>vice\<close>, \<open>special_significance\<close>, \<open>sub_planes\<close> and the planes' \<open>keywords\<close> are
  never read by the analyzer or the graph builder and are left out.
\<close>

record ray_data =
  r_name :: string
  r_quality :: string
  r_color :: string
  r_planetary_ruler :: string
  r_note :: string
  r_element :: string
  r_purpose :: string
  r_keywords :: "string list"

record plane_data =
  p_name :: string
  p_alternate_names :: "string list"
  p_consciousness_state :: string
  p_element :: string
  p_color :: string
  p_frequency :: real
  p_geometric_form :: string
  p_description :: string

definition SEVEN_RAYS :: "(int \<times> ray_data) list" where
  "SEVEN_RAYS = [
    (1, \<lparr>r_name = ''Will or Power'',
         r_quality = ''Will to manifest, Divine Purpose, Leadership'',
         r_color = ''#FF0000'', r_planetary_ruler = ''Vulcan (hidden)'', r_note = ''DO'',
         r_element = ''Fire'', r_purpose = ''To initiate and destroy'',
         r_keywords = [''Power'', ''Will'', ''Purpose'', ''Leadership'', ''Initiative'']\<rparr>),
    (2, \<lparr>r_name = ''Love-Wisdom'',
         r_quality = ''Inclusive love, Wisdom through experience'',
         r_color = ''#0066FF'', r_planetary_ruler = ''Jupiter'', r_note = ''RE'',
         r_element = ''Water'', r_purpose = ''To teach and heal'',
         r_keywords = [''Love'', ''Wisdom'', ''Teaching'', ''Healing'', ''Intuition'']\<rparr>),
    (3, \<lparr>r_name = ''Active Intelligence'',
         r_quality = ''Creative intelligence, Adaptability'',
         r_color = ''#FFFF00'', r_planetary_ruler = ''Saturn'', r_note = ''MI'',
         r_element = ''Air'', r_purpose = ''To manipulate matter and energy'',
         r_keywords = [''Intelligence'', ''Creativity'', ''Manipulation'', ''Mental'',
                       ''Adaptability'']\<rparr>),
    (4, \<lparr>r_name = ''Harmony through Conflict'',
         r_quality = ''Beauty, Art, Bridge-building, Mediation'',
         r_color = ''#00FF00'', r_planetary_ruler = ''Mercury'', r_note = ''FA'',
         r_element = ''Earth-Water'', r_purpose = ''To harmonize and beautify'',
         r_keywords = [''Harmony'', ''Beauty'', ''Conflict'', ''Art'', ''Mediation'',
                       ''Bridge'']\<rparr>),
    (5, \<lparr>r_name = ''Concrete Knowledge'',
         r_quality = ''Science, Research, Precision'',
         r_color = ''#FF8000'', r_planetary_ruler = ''Venus'', r_note = ''SOL'',
         r_element = ''Fire-Air'', r_purpose = ''To know and understand'',
         r_keywords = [''Science'', ''Research'', ''Knowledge'', ''Precision'', ''Analysis'']\<rparr>),
    (6, \<lparr>r_name = ''Devotion and Idealism'',
         r_quality = ''Devotion, Idealism, Religious fervor'',
         r_color = ''#FF00FF'', r_planetary_ruler = ''Mars/Neptune'', r_note = ''LA'',
         r_element = ''Water-Fire'', r_purpose = ''To idealize and devote'',
         r_keywords = [''Devotion'', ''Idealism'', ''Religion'', ''Faith'', ''Emotion'']\<rparr>),
    (7, \<lparr>r_name = ''Ceremonial Order'',
         r_quality = ''Organization, Ritual, Magic, Transformation'',
         r_color = ''#8000FF'', r_planetary_ruler = ''Uranus'', r_note = ''SI'',
         r_element = ''Earth-Air'', r_purpose = ''To organize and ritualize'',
         r_keywords = [''Order'', ''Ceremony'', ''Magic'', ''Ritual'', ''Organization'',
                       ''Transformation'']\<rparr>)]"

definition SEVEN_PLANES :: "(int \<times> plane_data) list" where
  "SEVEN_PLANES = [
    (1, \<lparr>p_name = ''Logoic Plane'', p_alternate_names = [''Adi'', ''Divine''],
         p_consciousness_state = ''Logoic consciousness, Divine Will'',
         p_element = ''Pure Spirit'', p_color = ''#FFFFFF'', p_frequency = 723 / 100,
         p_geometric_form = ''Point'',
         p_description = ''Plane of divine purpose and will, source of all manifestation''\<rparr>),
    (2, \<lparr>p_name = ''Monadic Plane'', p_alternate_names = [''Anupadaka'', ''Primordial''],
         p_consciousness_state = ''Monadic consciousness, Divine Love-Wisdom'',
         p_element = ''Spirit-Matter'', p_color = ''#E6E6FA'', p_frequency = 619 / 100,
         p_geometric_form = ''Line'',
         p_description = ''Plane of the Monad, divine spark, love-wisdom aspect''\<rparr>),
    (3, \<lparr>p_name = ''Atmic Plane'', p_alternate_names = [''Spiritual'', ''Nirvanic''],
         p_consciousness_state = ''Spiritual will, Atmic consciousness'',
         p_element = ''Spiritual Fire'', p_color = ''#FFD700'', p_frequency = 529 / 100,
         p_geometric_form = ''Triangle'',
         p_description = ''Plane of spiritual will, home of the spiritual triad''\<rparr>),
    (4, \<lparr>p_name = ''Buddhic Plane'',
         p_alternate_names = [''Intuitional'', ''Christ Consciousness''],
         p_consciousness_state = ''Intuitional consciousness, Unity perception'',
         p_element = ''Pure reason, Intuition'', p_color = ''#00BFFF'', p_frequency = 452 / 100,
         p_geometric_form = ''Square'',
         p_description =
           ''Plane of pure reason and intuition, Christ consciousness, unity awareness''\<rparr>),
    (5, \<lparr>p_name = ''Mental Plane'', p_alternate_names = [''Manasic'', ''Mind''],
         p_consciousness_state = ''Abstract and concrete thought'',
         p_element = ''Mental matter'', p_color = ''#FFFF00'', p_frequency = 386 / 100,
         p_geometric_form = ''Pentagon'',
         p_description =
           ''Plane of mind, abstract and concrete thought, ideas and concepts''\<rparr>),
    (6, \<lparr>p_name = ''Astral Plane'', p_alternate_names = [''Emotional'', ''Desire'', ''Kamic''],
         p_consciousness_state = ''Emotional consciousness, Desire'',
         p_element = ''Emotional/astral matter'', p_color = ''#FF69B4'', p_frequency = 330 / 100,
         p_geometric_form = ''Hexagon'',
         p_description = ''Plane of emotions, desires, feelings, astral experiences''\<rparr>),
    (7, \<lparr>p_name = ''Physical Plane'', p_alternate_names = [''Dense'', ''Etheric-Physical''],
         p_consciousness_state = ''Physical consciousness, Material awareness'',
         p_element = ''Dense and etheric matter'', p_color = ''#8B4513'', p_frequency = 282 / 100,
         p_geometric_form = ''Heptagon'',
         p_description =
           ''Plane of dense matter and etheric energies, physical manifestation''\<rparr>)]"

definition PRIMARY_RULERSHIPS :: "(int \<times> int list) list" where
  "PRIMARY_RULERSHIPS = [(1, [1, 7]), (2, [2, 6]), (3, [3, 5]), (4, [4]), (5, [5]), (6, [6]),
                         (7, [7])]"

definition PRIMARY_TRIAD :: "(string \<times> int) list" where
  "PRIMARY_TRIAD = [(''red'', 1), (''blue'', 2), (''yellow'', 3)]"

text \<open>
  The content of \<open>7rays_data.json\<close>, as far as it is read: \<open>data['rays']\<close>,
  \<open>data['planes']\<close>, \<open>data['relationships']['primary_rulerships']\<close> and
  \<open>data['color_mappings']['primary_triad']\<close>. JSON object keys are strings.
\<close>

record rays_json =
  rays :: "(string \<times> ray_data) list"
  planes :: "(string \<times> plane_data) list"
  primary_rulerships :: "(string \<times> int list) list"
  primary_triad :: "(string \<times> int) list"

text \<open>\<open>export_to_json\<close>: \<open>json.dump\<close> writes the integer keys as decimal strings.\<close>

definition export_to_json :: rays_json where
  "export_to_json =
     \<lparr>rays = map (\<lambda>(k, v). (str_int k, v)) SEVEN_RAYS,
      planes = map (\<lambda>(k, v). (str_int k, v)) SEVEN_PLANES,
      primary_rulerships = map (\<lambda>(k, v). (str_int k, v)) PRIMARY_RULERSHIPS,
      primary_triad = PRIMARY_TRIAD\<rparr>"

section \<open>The relationship analyzer (relationship\_analyzer.py)\<close>

text \<open>
  \<open>DynamicRelationshipAnalyzer\<close> reads \<open>7rays_data.json\<close> once; its methods take the
  loaded data as their first argument here. Of \<open>self.contexts\<close> only the keys are read.
\<close>

definition contexts :: "string list" where
  "contexts = [''mineral'', ''plant'', ''animal'', ''human'', ''spiritual'']"

definition primary_pairs :: "((int \<times> int) \<times> real) list" where
  "primary_pairs =
     [((1, 1), 9 / 10), ((1, 7), 8 / 10),
      ((2, 2), 9 / 10), ((2, 6), 7 / 10),
      ((3, 3), 9 / 10), ((3, 5), 8 / 10),
      ((4, 4), 1),
      ((5, 5), 9 / 10),
      ((6, 6), 9 / 10),
      ((7, 7), 9 / 10)]"

definition secondary_pairs :: "((int \<times> int) \<times> real) list" where
  "secondary_pairs =
     [((1, 3), 6 / 10), ((1, 5), 5 / 10),
      ((2, 4), 8 / 10), ((2, 5), 6 / 10),
      ((3, 1), 5 / 10), ((3, 7), 7 / 10),
      ((4, 2), 7 / 10), ((4, 6), 6 / 10),
      ((5, 3), 8 / 10), ((5, 7), 6 / 10),
      ((6, 2), 6 / 10), ((6, 4), 5 / 10),
      ((7, 1), 8 / 10), ((7, 3), 6 / 10)]"

definition get_base_affinity :: "int \<Rightarrow> int \<Rightarrow> real" where
  "get_base_affinity ray_num plane_num =
     (case map_of primary_pairs (ray_num, plane_num) of
        Some v \<Rightarrow> v
      | None \<Rightarrow>
         (case map_of secondary_pairs (ray_num, plane_num) of
            Some v \<Rightarrow> v
          | None \<Rightarrow>
             (let diff = \<bar>ray_num - plane_num\<bar>
              in if diff = 0 then 9 / 10 else if diff \<le> 2 then 4 / 10 else 2 / 10)))"

definition get_context_modifier :: "int \<Rightarrow> int \<Rightarrow> string \<Rightarrow> real" where
  "get_context_modifier ray_num plane_num context =
     (if context \<notin> set contexts then 1
      else if context = ''human'' then
        (if ray_num = 4 \<or> plane_num = 4 then 13 / 10
         else if ray_num \<in> set [2, 5] \<or> plane_num \<in> set [5, 6] then 11 / 10
         else 1)
      else if context = ''spiritual'' then
        (if ray_num \<in> set [1, 2] \<or> plane_num \<in> set [1, 2, 3] then 12 / 10
         else if ray_num \<in> set [6, 7] \<or> plane_num \<in> set [6, 7] then 8 / 10
         else 1)
      else if context = ''animal'' then
        (if ray_num \<in> set [3, 6] \<or> plane_num \<in> set [6, 7] then 12 / 10
         else if ray_num \<in> set [1, 5] \<or> plane_num \<in> set [1, 2] then 7 / 10
         else 1)
      else 1)"

definition get_cycle_modifier :: "int \<Rightarrow> int \<Rightarrow> string \<Rightarrow> real" where
  "get_cycle_modifier ray_num plane_num cycle_phase =
     (if cycle_phase = ''outgoing'' then (if ray_num mod 2 = 1 then 12 / 10 else 9 / 10)
      else if cycle_phase = ''incoming'' then (if ray_num mod 2 = 0 then 12 / 10 else 9 / 10)
      else 1)"

definition get_fourth_emphasis_bonus :: "int \<Rightarrow> int \<Rightarrow> real" where
  "get_fourth_emphasis_bonus ray_num plane_num =
     (if ray_num = 4 \<and> plane_num = 4 then 2 / 10
      else if ray_num = 4 \<or> plane_num = 4 then 1 / 10
      else 0)"

definition determine_interaction_type :: "int \<Rightarrow> int \<Rightarrow> real \<Rightarrow> string" where
  "determine_interaction_type ray_num plane_num strength =
     (if strength > 8 / 10 then ''primary_channel''
      else if strength > 6 / 10 then ''strong_influence''
      else if strength > 4 / 10 then ''moderate_interaction''
      else if strength > 2 / 10 then ''subtle_resonance''
      else ''minimal_connection'')"

subsection \<open>Colour blending\<close>

text \<open>\<open>hex_color.lstrip('#')\<close>, then the three two-character slices read in base 16.\<close>

definition hex_to_rgb :: "string \<Rightarrow> error + (int \<times> int \<times> int)" where
  "hex_to_rgb hex_color =
     (let h = dropWhile (\<lambda>c. c = CHR ''#'') hex_color
      in bind_r (int16 (take 2 h)) (\<lambda>r.
         bind_r (int16 (take 2 (drop 2 h))) (\<lambda>g.
         bind_r (int16 (take 2 (drop 4 h))) (\<lambda>b. Inr (r, g, b)))))"

definition rgb_to_hex :: "int \<times> int \<times> int \<Rightarrow> string" where
  "rgb_to_hex rgb = (case rgb of (r, g, b) \<Rightarrow> CHR ''#'' # fmt_02x r @ fmt_02x g @ fmt_02x b)"

text \<open>
  One channel of the blend. The code truncates the double that the floating-point sum
  rounds to; here the exact sum is truncated, so where the exact sum is a whole number or
  a hair above one the code's channel can be one less (ray 7, plane 1, human, balanced:
  \<open>#9932ff\<close> in the code, \<open>#9933ff\<close> here). The range of a channel is the same.
\<close>

definition blend_channel :: "int \<Rightarrow> int \<Rightarrow> real \<Rightarrow> int" where
  "blend_channel ray_c plane_c strength =
     py_trunc (real_of_int ray_c * strength + real_of_int plane_c * (1 - strength))"

definition blended_rgb :: "int \<times> int \<times> int \<Rightarrow> int \<times> int \<times> int \<Rightarrow> real \<Rightarrow> int \<times> int \<times> int" where
  "blended_rgb ray_rgb plane_rgb strength =
     (case (ray_rgb, plane_rgb) of
        ((r1, g1, b1), (r2, g2, b2)) \<Rightarrow>
          (blend_channel r1 r2 strength, blend_channel g1 g2 strength,
           blend_channel b1 b2 strength))"

record color_blend_rec =
  ray_color :: string
  plane_color :: string
  blended_color :: string
  blend_strength :: real

definition calculate_color_blend :: "rays_json \<Rightarrow> int \<Rightarrow> int \<Rightarrow> real \<Rightarrow> error + color_blend_rec" where
  "calculate_color_blend d ray_num plane_num strength =
     bind_r (getitem (rays d) (str_int ray_num)) (\<lambda>rd.
     bind_r (getitem (planes d) (str_int plane_num)) (\<lambda>pd.
     bind_r (hex_to_rgb (r_color rd)) (\<lambda>ray_rgb.
     bind_r (hex_to_rgb (p_color pd)) (\<lambda>plane_rgb.
       Inr \<lparr>ray_color = r_color rd, plane_color = p_color pd,
            blended_color = rgb_to_hex (blended_rgb ray_rgb plane_rgb strength),
            blend_strength = strength\<rparr>))))"

subsection \<open>Harmonic fields\<close>

definition intervals :: "real list" where
  "intervals = [1, 9 / 8, 5 / 4, 4 / 3, 3 / 2, 5 / 3, 15 / 8]"

definition simple_ratios :: "real list" where
  "simple_ratios = [1 / 1, 2 / 1, 3 / 2, 4 / 3, 5 / 4, 6 / 5, 8 / 7]"

definition calculate_consonance :: "real \<Rightarrow> real" where
  "calculate_consonance ratio =
     (let min_distance = Min (set (map (\<lambda>r. \<bar>ratio - r\<bar>) simple_ratios))
      in 1 / (1 + min_distance * 5))"

record frequency_harmony_rec =
  ray_frequency :: real
  plane_frequency :: real
  harmonic_ratio :: real
  consonance :: real

definition calculate_frequency_harmony :: "rays_json \<Rightarrow> int \<Rightarrow> int \<Rightarrow> error + frequency_harmony_rec" where
  "calculate_frequency_harmony d ray_num plane_num =
     bind_r (py_index intervals (ray_num - 1)) (\<lambda>iv.
     bind_r (getitem (planes d) (str_int plane_num)) (\<lambda>pd.
       let ray_freq = 432 * iv;
           plane_freq = p_frequency pd * 100;
           ratio = (if plane_freq \<noteq> 0 then ray_freq / plane_freq else 1)
       in Inr \<lparr>ray_frequency = ray_freq, plane_frequency = plane_freq,
               harmonic_ratio = ratio, consonance = calculate_consonance ratio\<rparr>))"

subsection \<open>Evolutionary function\<close>

definition get_evolutionary_function :: "rays_json \<Rightarrow> int \<Rightarrow> int \<Rightarrow> string \<Rightarrow> error + string" where
  "get_evolutionary_function d ray_num plane_num context =
     bind_r (getitem (rays d) (str_int ray_num)) (\<lambda>rd.
     bind_r (getitem (planes d) (str_int plane_num)) (\<lambda>pd.
       let ray_name = r_name rd;
           plane_name = p_name pd;
           functions =
             [(''human'',
               [((4, 4), ''Bridge consciousness between spiritual and personality realms''),
                ((2, 4), ''Intuitive wisdom expressing through '' @ plane_name),
                ((5, 5), ''Scientific understanding through concrete mind''),
                ((6, 6), ''Devotional aspiration in emotional nature'')]),
              (''spiritual'',
               [((1, 1), ''Divine will expressing through '' @ plane_name),
                ((2, 2), ''Love-wisdom radiating from '' @ plane_name),
                ((3, 3), ''Active intelligence organizing '' @ plane_name)])];
           fallback = ray_name @ '' influencing '' @ plane_name @ '' in '' @ context @ '' context''
       in Inr (case map_of functions context of
                 None \<Rightarrow> fallback
               | Some m \<Rightarrow>
                  (case map_of m (ray_num, plane_num) of None \<Rightarrow> fallback | Some s \<Rightarrow> s))))"

subsection \<open>The score record\<close>

record relationship =
  ray :: int
  plane :: int
  strength :: real
  rel_context :: string
  cycle_phase :: string
  interaction_type :: string
  color_blend :: color_blend_rec
  frequency_harmony :: frequency_harmony_rec
  evolutionary_function :: string

definition clamp_strength :: "real \<Rightarrow> real" where
  "clamp_strength s = min (max s 0) 1"

definition dynamic_strength :: "int \<Rightarrow> int \<Rightarrow> string \<Rightarrow> string \<Rightarrow> real" where
  "dynamic_strength ray_num plane_num ctx cycle =
     (let base_relationship = get_base_affinity ray_num plane_num;
          context_modifier = get_context_modifier ray_num plane_num ctx;
          cycle_modifier = get_cycle_modifier ray_num plane_num cycle;
          fourth_emphasis = get_fourth_emphasis_bonus ray_num plane_num
      in clamp_strength (base_relationship * context_modifier * cycle_modifier + fourth_emphasis))"

definition calculate_dynamic_relationship ::
    "rays_json \<Rightarrow> int \<Rightarrow> int \<Rightarrow> string \<Rightarrow> string \<Rightarrow> error + relationship" where
  "calculate_dynamic_relationship d ray_num plane_num ctx cycle =
     (let s = dynamic_strength ray_num plane_num ctx cycle
      in bind_r (calculate_color_blend d ray_num plane_num s) (\<lambda>cb.
         bind_r (calculate_frequency_harmony d ray_num plane_num) (\<lambda>fh.
         bind_r (get_evolutionary_function d ray_num plane_num ctx) (\<lambda>ef.
           Inr \<lparr>ray = ray_num, plane = plane_num, strength = s, rel_context = ctx,
                cycle_phase = cycle,
                interaction_type = determine_interaction_type ray_num plane_num s,
                color_blend = cb, frequency_harmony = fh, evolutionary_function = ef\<rparr>))))"

text \<open>The two nested loops over \<open>range(1, 8)\<close>; the cycle phase is the default.\<close>

definition generate_full_relationship_matrix :: "rays_json \<Rightarrow> string \<Rightarrow> error + relationship list" where
  "generate_full_relationship_matrix d ctx =
     collect (concat (map (\<lambda>ray_num.
       map (\<lambda>plane_num. calculate_dynamic_relationship d ray_num plane_num ctx ''balanced'')
         [1, 2, 3, 4, 5, 6, 7]) [1, 2, 3, 4, 5, 6, 7]))"

section \<open>The graph builder (create\_triples.py)\<close>

subsection \<open>String operations\<close>

text \<open>The string methods are modelled on ASCII text, which is all the data contains.\<close>

definition replace_space :: "string \<Rightarrow> string" where
  "replace_space s = map (\<lambda>c. if c = CHR '' '' then CHR ''_'' else c) s"

fun join :: "string \<Rightarrow> string list \<Rightarrow> string" where
  "join sep [] = []"
| "join sep [x] = x"
| "join sep (x # y # ys) = x @ sep @ join sep (y # ys)"

definition lower_char :: "char \<Rightarrow> char" where
  "lower_char c = (case map_of (zip ''ABCDEFGHIJKLMNOPQRSTUVWXYZ'' ''abcdefghijklmnopqrstuvwxyz'') c
                   of Some l \<Rightarrow> l | None \<Rightarrow> c)"

definition upper_char :: "char \<Rightarrow> char" where
  "upper_char c = (case map_of (zip ''abcdefghijklmnopqrstuvwxyz'' ''ABCDEFGHIJKLMNOPQRSTUVWXYZ'') c
                   of Some u \<Rightarrow> u | None \<Rightarrow> c)"

definition lower :: "string \<Rightarrow> string" where
  "lower s = map lower_char s"

definition capitalize :: "string \<Rightarrow> string" where
  "capitalize s = (case s of [] \<Rightarrow> [] | c # cs \<Rightarrow> upper_char c # map lower_char cs)"

fun starts_with :: "string \<Rightarrow> string \<Rightarrow> bool" where
  "starts_with s [] = True"
| "starts_with [] (p # ps) = False"
| "starts_with (c # cs) (p # ps) = (c = p \<and> starts_with cs ps)"

text \<open>\<open>sub in s\<close>: \<open>sub\<close> occurs in \<open>s\<close> as a contiguous substring.\<close>

fun py_in :: "string \<Rightarrow> string \<Rightarrow> bool" where
  "py_in sub [] = (sub = [])"
| "py_in sub (c # cs) = (starts_with (c # cs) sub \<or> py_in sub cs)"

text \<open>
  \<open>str(x)\<close> for a float that is a short decimal, such as the planes' frequencies:
  the integer part, a point and the decimal digits (\<open>7.23\<close>, \<open>3.3\<close>, \<open>3.0\<close>). The
  exponent notation of very large and very small floats and the rounding of expansions
  longer than 17 digits are not modelled.
\<close>

fun frac_digits :: "nat \<Rightarrow> real \<Rightarrow> string" where
  "frac_digits 0 x = []"
| "frac_digits (Suc k) x =
     (let d = \<lfloor>x * 10\<rfloor>; r = x * 10 - real_of_int d
      in digit_char (nat d) # (if r = 0 then [] else frac_digits k r))"

definition str_float :: "real \<Rightarrow> string" where
  "str_float x =
     (let a = \<bar>x\<bar>; n = \<lfloor>a\<rfloor>
      in (if x < 0 then ''-'' else []) @ str_nat (nat n) @ ''.'' @ frac_digits 17 (a - real_of_int n))"

subsection \<open>Entities and triples\<close>

record entity =
  ent_id :: string
  ent_label :: string
  ent_kind :: string
  ent_color :: string
  ent_description :: string

type_synonym triple = "string \<times> string \<times> string"

text \<open>The two lists the builder appends to: \<open>entities\<close> and \<open>triples\<close>.\<close>

type_synonym graph = "entity list \<times> triple list"

definition entity_ids :: "entity list \<Rightarrow> string list" where
  "entity_ids entities = map ent_id entities"

text \<open>The body of the loop over a ray's keywords.\<close>

definition add_keyword :: "string \<Rightarrow> graph \<Rightarrow> string \<Rightarrow> graph" where
  "add_keyword entity_id g keyword =
     (case g of (entities, triples) \<Rightarrow>
        let keyword_id = ''Quality_'' @ replace_space keyword;
            entities' =
              (if keyword_id \<notin> set (entity_ids entities)
               then entities @ [\<lparr>ent_id = keyword_id, ent_label = keyword, ent_kind = ''Quality'',
                                  ent_color = ''#888888'',
                                  ent_description = ''Spiritual quality: '' @ keyword\<rparr>]
               else entities)
        in (entities', triples @ [(entity_id, ''embodies'', keyword_id)]))"

text \<open>The body of the loop over \<open>data['rays'].items()\<close>.\<close>

definition add_ray :: "graph \<Rightarrow> string \<times> ray_data \<Rightarrow> graph" where
  "add_ray g item =
     (case (g, item) of ((entities, triples), (ray_id, rd)) \<Rightarrow>
        let entity_id = ''Ray'' @ ray_id;
            entities1 = entities @
              [\<lparr>ent_id = entity_id,
                ent_label = ''Ray '' @ ray_id @ '': '' @ r_name rd,
                ent_kind = ''Ray'',
                ent_color = r_color rd,
                ent_description = ''Ray '' @ ray_id @ '' - '' @ r_name rd @ '': '' @ r_quality rd
                  @ ''. Keywords: '' @ join '', '' (r_keywords rd)\<rparr>];
            triples1 = triples @
              [(entity_id, ''hasName'', r_name rd),
               (entity_id, ''hasQuality'', r_quality rd),
               (entity_id, ''hasColor'', r_color rd),
               (entity_id, ''hasPurpose'', r_purpose rd),
               (entity_id, ''ruledBy'', r_planetary_ruler rd),
               (entity_id, ''hasNote'', r_note rd),
               (entity_id, ''hasElement'', r_element rd)]
        in foldl (add_keyword entity_id) (entities1, triples1) (r_keywords rd))"

text \<open>The body of the loop over a plane's alternate names.\<close>

definition add_alt_name :: "string \<Rightarrow> graph \<Rightarrow> string \<Rightarrow> graph" where
  "add_alt_name entity_id g alt_name =
     (case g of (entities, triples) \<Rightarrow>
        let alt_id = ''Name_'' @ replace_space alt_name;
            entities' =
              (if alt_id \<notin> set (entity_ids entities)
               then entities @ [\<lparr>ent_id = alt_id, ent_label = alt_name,
                                  ent_kind = ''AlternateName'', ent_color = ''#666666'',
                                  ent_description = ''Alternate name for plane: '' @ alt_name\<rparr>]
               else entities)
        in (entities', triples @ [(entity_id, ''alsoKnownAs'', alt_id)]))"

text \<open>The body of the loop over \<open>data['planes'].items()\<close>.\<close>

definition add_plane :: "graph \<Rightarrow> string \<times> plane_data \<Rightarrow> graph" where
  "add_plane g item =
     (case (g, item) of ((entities, triples), (plane_id, pd)) \<Rightarrow>
        let entity_id = ''Plane'' @ plane_id;
            entities1 = entities @
              [\<lparr>ent_id = entity_id,
                ent_label = ''Plane '' @ plane_id @ '': '' @ p_name pd,
                ent_kind = ''Plane'',
                ent_color = p_color pd,
                ent_description = ''Plane '' @ plane_id @ '' - '' @ p_name pd @ '': ''
                  @ p_consciousness_state pd @ ''. '' @ p_description pd\<rparr>];
            triples1 = triples @
              [(entity_id, ''hasName'', p_name pd),
               (entity_id, ''hasConsciousness'', p_consciousness_state pd),
               (entity_id, ''hasElement'', p_element pd),
               (entity_id, ''hasColor'', p_color pd),
               (entity_id, ''hasGeometry'', p_geometric_form pd),
               (entity_id, ''hasFrequency'', str_float (p_frequency pd))]
        in foldl (add_alt_name entity_id) (entities1, triples1) (p_alternate_names pd))"

text \<open>The body of the loop over the primary rulerships, with its inner loop.\<close>

definition add_governed :: "string \<Rightarrow> graph \<Rightarrow> int \<Rightarrow> graph" where
  "add_governed ray_id g plane_num =
     (case g of (entities, triples) \<Rightarrow>
        let plane_id = ''Plane'' @ str_int plane_num
        in (entities, triples @ [(ray_id, ''primarily_governs'', plane_id),
                                 (plane_id, ''primarily_ruled_by'', ray_id)]))"

definition add_rulership :: "graph \<Rightarrow> string \<times> int list \<Rightarrow> graph" where
  "add_rulership g item =
     (case item of (ray_num, plane_nums) \<Rightarrow> foldl (add_governed (''Ray'' @ ray_num)) g plane_nums)"

definition fourth_entities :: "entity list" where
  "fourth_entities =
     [\<lparr>ent_id = ''Fourth_Bridge_Function'', ent_label = ''Fourth Bridge Function'',
       ent_kind = ''Function'', ent_color = ''#00FF00'',
       ent_description =
         ''The bridge function between higher spiritual triad and lower quaternary''\<rparr>,
      \<lparr>ent_id = ''Humanity'', ent_label = ''Humanity (Fourth Kingdom)'',
       ent_kind = ''Kingdom'', ent_color = ''#FFD700'',
       ent_description =
         ''Humanity as the fourth kingdom, mediator between animal and spiritual realms''\<rparr>,
      \<lparr>ent_id = ''Christ_Consciousness'', ent_label = ''Christ Consciousness'',
       ent_kind = ''Consciousness'', ent_color = ''#00BFFF'',
       ent_description = ''Unity awareness and Christ consciousness on the buddhic plane''\<rparr>]"

definition fourth_triples :: "triple list" where
  "fourth_triples =
     [(''Ray4'', ''embodies'', ''Fourth_Bridge_Function''),
      (''Plane4'', ''embodies'', ''Fourth_Bridge_Function''),
      (''Ray4'', ''mediates_for'', ''Humanity''),
      (''Plane4'', ''enables'', ''Christ_Consciousness''),
      (''Humanity'', ''evolves_through'', ''Ray4''),
      (''Fourth_Bridge_Function'', ''harmonizes'', ''Conflict'')]"

definition add_fourth :: "graph \<Rightarrow> graph" where
  "add_fourth g = (case g of (entities, triples) \<Rightarrow>
     (entities @ fourth_entities, triples @ fourth_triples))"

text \<open>The body of the loop over the primary colours; the ray's colour is looked up only
  when the colour entity is new.\<close>

definition add_color :: "rays_json \<Rightarrow> graph \<Rightarrow> string \<times> int \<Rightarrow> error + graph" where
  "add_color d g item =
     (case (g, item) of ((entities, triples), (color_name, ray_num)) \<Rightarrow>
        let color_id = ''Color_'' @ capitalize color_name
        in bind_r
             (if color_id \<notin> set (entity_ids entities)
              then bind_r (getitem (rays d) (str_int ray_num)) (\<lambda>rd.
                     Inr (entities @
                       [\<lparr>ent_id = color_id, ent_label = capitalize color_name,
                         ent_kind = ''Color'', ent_color = r_color rd,
                         ent_description = ''Primary color '' @ color_name
                           @ '' associated with divine expression''\<rparr>]))
              else Inr entities)
             (\<lambda>entities'.
                Inr (entities',
                     triples @ [(''Ray'' @ str_int ray_num, ''manifests_as'', color_id)])))"

fun fold_r :: "('s \<Rightarrow> 'a \<Rightarrow> error + 's) \<Rightarrow> 's \<Rightarrow> 'a list \<Rightarrow> error + 's" where
  "fold_r f s [] = Inr s"
| "fold_r f s (x # xs) = (case f s x of Inl e \<Rightarrow> Inl e | Inr s' \<Rightarrow> fold_r f s' xs)"

definition relation_map :: "(string \<times> string) list" where
  "relation_map =
     [(''primary_channel'', ''flows_through''),
      (''strong_influence'', ''strongly_influences''),
      (''moderate_interaction'', ''interacts_with''),
      (''subtle_resonance'', ''resonates_with'')]"

text \<open>\<open>relation_map.get(rel['interaction_type'], 'relates_to')\<close>.\<close>

definition relation_of :: "relationship \<Rightarrow> string" where
  "relation_of rel = (case map_of relation_map (interaction_type rel) of
                        Some r \<Rightarrow> r | None \<Rightarrow> ''relates_to'')"

text \<open>The body of the loop over the records of \<open>ray_plane_relationships_human.json\<close>.\<close>

definition add_dynamic :: "graph \<Rightarrow> relationship \<Rightarrow> graph" where
  "add_dynamic g rel =
     (case g of (entities, triples) \<Rightarrow>
        if strength rel > 6 / 10
        then (let ray_id = ''Ray'' @ str_int (ray rel);
                  plane_id = ''Plane'' @ str_int (plane rel)
              in (entities, triples @ [(ray_id, relation_of rel, plane_id)]))
        else (entities, triples))"

definition bailey_quotes :: "string list" where
  "bailey_quotes =
     [''Enlightenment is humanity's emergence from self-incurred immaturity'',
      ''The fourth ray is the ray of harmony through conflict'',
      ''The buddhic plane is the plane of pure reason and intuition'',
      ''Humanity serves as the bridge between the animal and spiritual kingdoms'',
      ''The goal of evolution is the development of consciousness'',
      ''Each ray represents a different aspect of divine will-to-good'']"

text \<open>The body of the loop over \<open>enumerate(bailey_quotes)\<close>.\<close>

definition add_quote :: "graph \<Rightarrow> nat \<times> string \<Rightarrow> graph" where
  "add_quote g item =
     (case (g, item) of ((entities, triples), (i, quote)) \<Rightarrow>
        let quote_id = ''Quote_'' @ str_int (int i + 1);
            entities' = entities @
              [\<lparr>ent_id = quote_id, ent_label = ''Bailey Quote '' @ str_int (int i + 1),
                ent_kind = ''Teaching'', ent_color = ''#E6E6FA'', ent_description = quote\<rparr>];
            t1 = (if py_in ''fourth ray'' (lower quote)
                  then triples @ [(''Ray4'', ''described_by'', quote_id)] else triples);
            t2 = (if py_in ''buddhic'' (lower quote)
                  then t1 @ [(''Plane4'', ''described_by'', quote_id)] else t1);
            t3 = (if py_in ''humanity'' (lower quote)
                  then t2 @ [(''Humanity'', ''described_by'', quote_id)] else t2)
        in (entities', t3))"

text \<open>
  \<open>create_entities_and_triples\<close>. The first argument is the loaded \<open>7rays_data.json\<close>;
  the second is the relationship list of \<open>ray_plane_relationships_human.json\<close>, or
  \<open>None\<close> when the file does not exist (the \<open>FileNotFoundError\<close> is caught and the
  builder goes on).
\<close>

definition create_entities_and_triples ::
    "rays_json \<Rightarrow> relationship list option \<Rightarrow> error + graph" where
  "create_entities_and_triples d human_rels =
     (let g1 = foldl add_ray ([], []) (rays d);
          g2 = foldl add_plane g1 (planes d);
          g3 = foldl add_rulership g2 (primary_rulerships d);
          g4 = add_fourth g3
      in bind_r (fold_r (add_color d) g4 (primary_triad d)) (\<lambda>g5.
           let g6 = (case human_rels of None \<Rightarrow> g5 | Some rels \<Rightarrow> foldl add_dynamic g5 rels)
           in Inr (foldl add_quote g6 (enumerate 0 bailey_quotes))))"

section \<open>The explorer (app.py)\<close>

subsection \<open>Arrays\<close>

text \<open>
  A two-dimensional numpy array: the number of columns (\<open>shape[1]\<close>) and the rows.
  In a well-formed array every row has that many entries.
\<close>

record matrix =
  n_cols :: nat
  vectors :: "real list list"


text \<open>\<open>np.linalg.norm\<close> of a row.\<close>

definition l2_norm :: "real list \<Rightarrow> real" where
  "l2_norm v = sqrt (sum_list (map (\<lambda>x. x * x) v))"

text \<open>
  A row divided by its norm. For a row of zeros numpy computes 0/0 in every entry and
  returns NaN there (it warns and does not raise).
\<close>

definition normalize_row :: "real list \<Rightarrow> error + real list" where
  "normalize_row v =
     (if v \<noteq> [] \<and> l2_norm v = 0 then Inl NotANumber else Inr (map (\<lambda>x. x / l2_norm v) v))"

text \<open>
  The sum of two arrays with the same number of columns: row by row when they have the
  same number of rows; a single row is broadcast; otherwise numpy raises ValueError.
\<close>

definition add_rows :: "real list list \<Rightarrow> real list list \<Rightarrow> error + real list list" where
  "add_rows A B =
     (if length A = length B then Inr (map2 (map2 (+)) A B)
      else if length A = 1 then Inr (map (map2 (+) (hd A)) B)
      else if length B = 1 then Inr (map (\<lambda>a. map2 (+) a (hd B)) A)
      else Inl ValueError)"

definition scale :: "real \<Rightarrow> real list list \<Rightarrow> real list list" where
  "scale c A = map (map (\<lambda>x. c * x)) A"

subsection \<open>Fusion\<close>

text \<open>
  \<open>create_fused_embeddings\<close>; the globals \<open>kg_embeddings\<close> and \<open>text_embeddings\<close>
  it reads are its first two arguments.
\<close>

definition create_fused_embeddings :: "matrix \<Rightarrow> matrix \<Rightarrow> real \<Rightarrow> error + matrix" where
  "create_fused_embeddings kg_embeddings text_embeddings alpha =
     bind_r (collect (map normalize_row (vectors kg_embeddings))) (\<lambda>kg_norm.
       let min_dim = min (n_cols kg_embeddings) (n_cols text_embeddings);
           kg_aligned = map (take min_dim) kg_norm;
           text_aligned = map (take min_dim) (vectors text_embeddings)
       in bind_r (add_rows (scale alpha kg_aligned) (scale (1 - alpha) text_aligned)) (\<lambda>fused.
            Inr \<lparr>n_cols = min_dim, vectors = fused\<rparr>))"

subsection \<open>The loaded state\<close>

text \<open>
  The module's globals that the functions below read or write. The rows of
  \<open>entities_df\<close> are the rows of \<open>data/nodes.csv\<close>. The text encoder, the projector
  and the plotting library are external; the text embeddings are an input here.
\<close>

record app_state =
  entities_df :: "entity list"
  kg_embeddings :: matrix
  text_embeddings :: matrix
  fused_embeddings :: matrix

definition load_data :: "entity list \<Rightarrow> matrix \<Rightarrow> matrix \<Rightarrow> error + app_state" where
  "load_data nodes kg text =
     bind_r (create_fused_embeddings kg text (6 / 10)) (\<lambda>fused.
       Inr \<lparr>entities_df = nodes, kg_embeddings = kg, text_embeddings = text,
            fused_embeddings = fused\<rparr>)"

text \<open>
  \<open>create_visualization\<close>, as far as it changes the state: the fused table is rebuilt
  when \<open>alpha\<close> differs from 0.6. The projection and the figure it returns are the
  external projector's and plotting library's and are not modelled.
\<close>

definition create_visualization ::
    "app_state \<Rightarrow> string \<Rightarrow> real \<Rightarrow> bool \<Rightarrow> string \<Rightarrow> error + app_state" where
  "create_visualization st dimension alpha highlight_fourth color_by =
     (if alpha \<noteq> 6 / 10
      then bind_r (create_fused_embeddings (kg_embeddings st) (text_embeddings st) alpha)
             (\<lambda>fused. Inr (st\<lparr>fused_embeddings := fused\<rparr>))
      else Inr st)"

subsection \<open>Similarity and ranking\<close>

text \<open>
  \<open>sklearn\<close>'s \<open>cosine_similarity\<close> of one query row against the rows of an array:
  both sides are divided by their norms (a zero norm is replaced by 1) and multiplied.
  It raises ValueError when the array has no rows or no columns or when the query has
  another number of entries.
\<close>

definition unit_row :: "real list \<Rightarrow> real list" where
  "unit_row v = (let n = l2_norm v in map (\<lambda>x. x / (if n = 0 then 1 else n)) v)"

definition dot :: "real list \<Rightarrow> real list \<Rightarrow> real" where
  "dot u v = sum_list (map2 (*) u v)"

definition cosine_similarity :: "real list \<Rightarrow> matrix \<Rightarrow> error + real list" where
  "cosine_similarity q Y =
     (if vectors Y = [] \<or> n_cols Y = 0 \<or> length q \<noteq> n_cols Y then Inl ValueError
      else Inr (map (\<lambda>y. dot (unit_row q) (unit_row y)) (vectors Y)))"

text \<open>\<open>xs[:k]\<close>: the first \<open>k\<close> elements, or all but the last \<open>-k\<close> for a negative \<open>k\<close>.\<close>

definition py_take :: "int \<Rightarrow> 'a list \<Rightarrow> 'a list" where
  "py_take k xs = (if 0 \<le> k then take (nat k) xs else take (length xs - nat (- k)) xs)"


text \<open>
  The ranking shared by \<open>find_similar_entities\<close> and \<open>ray_plane_arithmetic\<close>:
  \<open>similarities = cosine_similarity(query, fused_embeddings)[0]\<close> and
  \<open>top_indices = np.argsort(-similarities)[:top_k]\<close>.
\<close>

definition rank :: "(real list \<Rightarrow> nat list) \<Rightarrow> app_state \<Rightarrow> real list \<Rightarrow> int
                     \<Rightarrow> error + (real list \<times> nat list)" where
  "rank argsort st query_emb top_k =
     bind_r (cosine_similarity query_emb (fused_embeddings st)) (\<lambda>similarities.
       Inr (similarities, py_take top_k (argsort (map uminus similarities))))"

text \<open>Two argsorts that meet the contract: ties in table order, and ties in reverse order.\<close>

definition stable_argsort :: "real list \<Rightarrow> nat list" where
  "stable_argsort xs = sort_key (\<lambda>i. xs ! i) [0..<length xs]"


subsection \<open>Search and arithmetic\<close>

text \<open>The rows whose lower-cased label contains the lower-cased text, by position.\<close>

definition matches :: "app_state \<Rightarrow> string \<Rightarrow> nat list" where
  "matches st text =
     filter (\<lambda>i. py_in (lower text) (lower (ent_label (entities_df st ! i))))
       [0..<length (entities_df st)]"

definition is_space :: "char \<Rightarrow> bool" where
  "is_space c = (c \<in> set [CHR '' '', CHR 0x09, CHR 0x0A, CHR 0x0B, CHR 0x0C, CHR 0x0D])"

text \<open>A row of the result table; the code prints the similarity with three decimals.\<close>

record result_row =
  row_rank :: nat
  row_entity :: string
  row_type :: string
  row_similarity :: real
  row_description :: string

text \<open>The loops that build the result rows from \<open>top_indices\<close>.\<close>

definition search_row :: "app_state \<Rightarrow> real list \<Rightarrow> nat \<times> nat \<Rightarrow> error + result_row" where
  "search_row st similarities item =
     (case item of (n, idx) \<Rightarrow>
        bind_r (py_index (entities_df st) (int idx)) (\<lambda>e.
          Inr \<lparr>row_rank = n + 1, row_entity = ent_label e, row_type = ent_kind e,
               row_similarity = similarities ! idx,
               row_description =
                 (if length (ent_description e) > 150 then take 150 (ent_description e) @ ''...''
                  else ent_description e)\<rparr>))"

definition arithmetic_row :: "app_state \<Rightarrow> real list \<Rightarrow> nat \<times> nat \<Rightarrow> error + result_row" where
  "arithmetic_row st similarities item =
     (case item of (n, idx) \<Rightarrow>
        bind_r (py_index (entities_df st) (int idx)) (\<lambda>e.
          Inr \<lparr>row_rank = n + 1, row_entity = ent_label e, row_type = ent_kind e,
               row_similarity = similarities ! idx,
               row_description = take 100 (ent_description e) @ ''...''\<rparr>))"

datatype search_result = Message string | Table "result_row list"

text \<open>
  \<open>find_similar_entities\<close>; \<open>encode\<close> is the external text encoder. The rows carry no
  rank in the code; \<open>row_rank\<close> is their position here.
\<close>

definition find_similar_entities ::
    "(real list \<Rightarrow> nat list) \<Rightarrow> (string \<Rightarrow> real list) \<Rightarrow> app_state \<Rightarrow> string \<Rightarrow> int
       \<Rightarrow> error + search_result" where
  "find_similar_entities argsort encode st query top_k =
     (if list_all is_space query then Inr (Message ''Please enter a search query.'')
      else
        bind_r (case matches st query of
                  [] \<Rightarrow> Inr (encode query)
                | query_idx # _ \<Rightarrow>
                    (if query_idx < length (vectors (fused_embeddings st))
                     then Inr (vectors (fused_embeddings st) ! query_idx)
                     else Inl ValueError)) (\<lambda>query_emb.
        bind_r (rank argsort st query_emb top_k) (\<lambda>(similarities, top_indices).
        bind_r (collect (map (search_row st similarities) (enumerate 0 top_indices))) (\<lambda>results.
          Inr (Table results)))))"

text \<open>The local function \<open>find_entity_embedding\<close>: \<open>None\<close> stands for \<open>(None, None)\<close>.\<close>

definition find_entity_embedding :: "app_state \<Rightarrow> string \<Rightarrow> error + (real list \<times> string) option" where
  "find_entity_embedding st concept_name =
     (case matches st concept_name of
        [] \<Rightarrow> Inr None
      | idx # _ \<Rightarrow>
          bind_r (py_index (vectors (fused_embeddings st)) (int idx)) (\<lambda>emb.
          bind_r (py_index (entities_df st) (int idx)) (\<lambda>e. Inr (Some (emb, ent_label e)))))"

datatype arithmetic_result = NotFound string | Ranked string "result_row list"

definition ray_plane_arithmetic ::
    "(real list \<Rightarrow> nat list) \<Rightarrow> app_state \<Rightarrow> string \<Rightarrow> string \<Rightarrow> string
       \<Rightarrow> error + arithmetic_result" where
  "ray_plane_arithmetic argsort st ray_concept operation plane_concept =
     bind_r (find_entity_embedding st ray_concept) (\<lambda>ray.
     bind_r (find_entity_embedding st plane_concept) (\<lambda>plane.
       case (ray, plane) of
         (Some (ray_emb, ray_found), Some (plane_emb, plane_found)) \<Rightarrow>
           (let (result_emb, op_text) =
                  (if operation = ''Add (+)''
                   then (map2 (+) ray_emb plane_emb, ray_found @ '' + '' @ plane_found)
                   else if operation = ''Subtract (-)''
                   then (map2 (-) ray_emb plane_emb, ray_found @ '' - '' @ plane_found)
                   else (map (\<lambda>x. x / 2) (map2 (+) ray_emb plane_emb),
                         ''('' @ ray_found @ '' + '' @ plane_found @ '') / 2''))
            in bind_r (rank argsort st result_emb 8) (\<lambda>(similarities, top_indices).
               bind_r (collect (map (arithmetic_row st similarities) (enumerate 0 top_indices)))
                 (\<lambda>results. Inr (Ranked (''Vector arithmetic: '' @ op_text) results))))
       | _ \<Rightarrow>
           Inr (NotFound (''Could not find entities for '' @ [CHR 0x27] @ ray_concept
                          @ [CHR 0x27] @ '' or '' @ [CHR 0x27] @ plane_concept @ [CHR 0x27]))))"

subsection \<open>Predicates used in the statements\<close>

text \<open>A colour as the data files write it: \<open>#\<close> followed by six hexadecimal digits.\<close>

definition wf_hex_color :: "string \<Rightarrow> bool" where
  "wf_hex_color s =
     (case s of [] \<Rightarrow> False
      | c # h \<Rightarrow> c = CHR ''#'' \<and> length h = 6 \<and> list_all is_hex_digit h)"

text \<open>A colour channel: an integer from 0 to 255.\<close>

definition wf_channel :: "int \<Rightarrow> bool" where
  "wf_channel c = (0 \<le> c \<and> c \<le> 255)"

text \<open>The pairs of \<open>range(1, 8)\<close> times \<open>range(1, 8)\<close>, ray-major.\<close>

definition ray_plane_pairs :: "(int \<times> int) list" where
  "ray_plane_pairs = concat (map (\<lambda>r. map (Pair r) [1, 2, 3, 4, 5, 6, 7]) [1, 2, 3, 4, 5, 6, 7])"

subsection \<open>Predicates on the builder's result\<close>

text \<open>The relations of the attribute triples: their tails are literal values of the data.\<close>

definition attribute_relations :: "string list" where
  "attribute_relations =
     [''hasName'', ''hasQuality'', ''hasColor'', ''hasPurpose'', ''ruledBy'', ''hasNote'',
      ''hasElement'', ''hasConsciousness'', ''hasGeometry'', ''hasFrequency'']"

text \<open>
  The one fixed triple whose tail names a keyword (\<open>Conflict\<close>) and not the keyword's
  entity (\<open>Quality_Conflict\<close>). Nothing is stated about its tail below.
\<close>

definition conflict_triple :: triple where
  "conflict_triple = (''Fourth_Bridge_Function'', ''harmonizes'', ''Conflict'')"

text \<open>
  A triple is linked to a set of ids when its head is in the set, and its tail too unless
  it is an attribute triple or the triple above.
\<close>

definition triple_ok :: "string set \<Rightarrow> triple \<Rightarrow> bool" where
  "triple_ok I tr =
     (case tr of (h, r, t) \<Rightarrow>
        h \<in> I \<and> (r \<notin> set attribute_relations \<and> tr \<noteq> conflict_triple \<longrightarrow> t \<in> I))"

definition linked :: "graph \<Rightarrow> bool" where
  "linked g = (\<forall>tr \<in> set (snd g). triple_ok (set (entity_ids (fst g))) tr)"

definition ids :: "graph \<Rightarrow> string set" where
  "ids g = set (entity_ids (fst g))"

text \<open>No entity id contains a space.\<close>

definition spaceless :: "graph \<Rightarrow> bool" where
  "spaceless g = (\<forall>i \<in> set (entity_ids (fst g)). CHR '' '' \<notin> set i)"

text \<open>The relation labels of the strength bands above 0.6.\<close>

definition strong_relations :: "string list" where
  "strong_relations = [''flows_through'', ''strongly_influences'']"

subsection \<open>Predicates and examples for the explorer\<close>

text \<open>Every row has a nonzero entry.\<close>

definition nonzero_rows :: "matrix \<Rightarrow> bool" where
  "nonzero_rows m = list_all (\<lambda>v. list_ex (\<lambda>x. x \<noteq> 0) v) (vectors m)"

text \<open>A row divided by its norm.\<close>

definition l2_normalized :: "real list \<Rightarrow> real list" where
  "l2_normalized v = map (\<lambda>x. x / l2_norm v) v"

text \<open>A loaded state with two entities, used as an example.\<close>

abbreviation two_entity_state :: app_state where
  "two_entity_state \<equiv>
     \<lparr>entities_df =
         [\<lparr>ent_id = ''Ray4'', ent_label = ''Ray 4: Harmony through Conflict'', ent_kind = ''Ray'',
           ent_color = ''#00FF00'', ent_description = ''Ray 4''\<rparr>,
          \<lparr>ent_id = ''Plane4'', ent_label = ''Plane 4: Buddhic Plane'', ent_kind = ''Plane'',
           ent_color = ''#00BFFF'', ent_description = ''Plane 4''\<rparr>],
       kg_embeddings = \<lparr>n_cols = 2, vectors = [[1, 0], [0, 1]]\<rparr>,
       text_embeddings = \<lparr>n_cols = 2, vectors = [[1, 0], [0, 1]]\<rparr>,
       fused_embeddings = \<lparr>n_cols = 2, vectors = [[1, 0], [0, 1]]\<rparr>\<rparr>"

section \<open>Properties of the relationship scorer\<close>

lemma str_int_digits:
  "str_int 1 = ''1''" "str_int 2 = ''2''" "str_int 3 = ''3''" "str_int 4 = ''4''"
  "str_int 5 = ''5''" "str_int 6 = ''6''" "str_int 7 = ''7''"
  by (simp_all add: str_int_def str_nat.simps digit_char_def)

lemma in_1_7: "(n::int) \<in> {1..7} \<Longrightarrow> n = 7 \<or> n = 6 \<or> n = 5 \<or> n = 4 \<or> n = 3 \<or> n = 2 \<or> n = 1"
  by auto

lemma hex_digits_bound: "map_of hex_digits c = Some v \<Longrightarrow> v \<le> 15"
  by (drule map_of_SomeD) (auto simp: hex_digits_def upt_rec)

lemma hex_val_le: "hex_val c \<le> 15"
  by (auto simp: hex_val_def split: option.splits dest: hex_digits_bound)

lemma digit_char_hex: "k < 16 \<Longrightarrow> is_hex_digit (digit_char k)"
proof -
  assume "k < 16"
  then have "k \<in> set [0..<16]" by simp
  also have "[0..<16] = [0,1,2,3,4,5,6,7,8,9,10,11,12,13,14,15::nat]" by (simp add: upt_rec)
  finally show ?thesis
    by (auto simp: is_hex_digit_def digit_char_def hex_digits_def upt_rec)
qed

lemma int16_two: "is_hex_digit a \<Longrightarrow> is_hex_digit b \<Longrightarrow> \<exists>v. int16 [a, b] = Inr v \<and> wf_channel v"
  using hex_val_le [of a] hex_val_le [of b] by (simp add: int16_def wf_channel_def)

lemma hex_to_rgb_wf:
  assumes "wf_hex_color s"
  shows "\<exists>r g b. hex_to_rgb s = Inr (r, g, b) \<and> wf_channel r \<and> wf_channel g \<and> wf_channel b"
proof -
  from assms obtain h where s: "s = CHR ''#'' # h" and len: "length h = 6"
    and hx: "list_all is_hex_digit h"
    by (auto simp: wf_hex_color_def split: list.splits)
  from len obtain a b c d e f where h: "h = [a, b, c, d, e, f]"
    by (auto simp: length_Suc_conv eval_nat_numeral)
  have na: "a \<noteq> CHR ''#''" using hx h by (auto simp: is_hex_digit_def hex_digits_def upt_rec)
  from hx h int16_two [of a b] int16_two [of c d] int16_two [of e f]
  obtain r g bl where "int16 [a, b] = Inr r" "int16 [c, d] = Inr g" "int16 [e, f] = Inr bl"
    "wf_channel r" "wf_channel g" "wf_channel bl" by auto
  then show ?thesis using s h na by (simp add: hex_to_rgb_def bind_r_def)
qed

lemma blend_channel_wf:
  assumes "wf_channel a" "wf_channel b" "0 \<le> s" "s \<le> 1"
  shows "wf_channel (blend_channel a b s)"
proof -
  let ?x = "real_of_int a * s + real_of_int b * (1 - s)"
  have a: "0 \<le> real_of_int a" "real_of_int a \<le> 255" "0 \<le> real_of_int b" "real_of_int b \<le> 255"
    using assms by (simp_all add: wf_channel_def)
  have lo: "0 \<le> ?x" using a assms by simp
  have "real_of_int a * s \<le> 255 * s"
    by (rule mult_right_mono) (use a assms in simp_all)
  moreover have "real_of_int b * (1 - s) \<le> 255 * (1 - s)"
    by (rule mult_right_mono) (use a assms in simp_all)
  ultimately have hi: "?x \<le> 255" by (simp add: algebra_simps)
  have "\<lfloor>?x\<rfloor> \<le> 255" using hi by (simp add: floor_le_iff)
  moreover have "0 \<le> \<lfloor>?x\<rfloor>" using lo by simp
  ultimately show ?thesis using lo by (simp add: blend_channel_def py_trunc_def wf_channel_def)
qed

lemma hex_nat_small: "n < 256 \<Longrightarrow> length (hex_nat n) \<le> 2 \<and> list_all is_hex_digit (hex_nat n)"
proof -
  assume n: "n < 256"
  show ?thesis
  proof (cases "n < 16")
    case True
    then show ?thesis by (subst hex_nat.simps, subst hex_nat.simps) (simp add: digit_char_hex)
  next
    case False
    have d: "n div 16 < 16" using n by simp
    have "hex_nat n = hex_nat (n div 16) @ [digit_char (n mod 16)]"
      using False by (subst hex_nat.simps) simp
    also have "hex_nat (n div 16) = [digit_char (n div 16)]" using d by (subst hex_nat.simps) simp
    finally show ?thesis using d by (simp add: digit_char_hex)
  qed
qed

lemma hex_nat_nonempty: "hex_nat n \<noteq> []"
  by (subst hex_nat.simps) simp

lemma fmt_02x_wf: "wf_channel c \<Longrightarrow> length (fmt_02x c) = 2 \<and> list_all is_hex_digit (fmt_02x c)"
proof -
  assume c: "wf_channel c"
  then have n: "nat c < 256" unfolding wf_channel_def by linarith
  have z: "is_hex_digit CHR ''0''" by (simp add: is_hex_digit_def hex_digits_def)
  from hex_nat_small [OF n] hex_nat_nonempty [of "nat c"] z c show ?thesis
    by (cases "hex_nat (nat c)") (auto simp: fmt_02x_def wf_channel_def Let_def le_Suc_eq)
qed

lemma rgb_to_hex_wf:
  assumes "wf_channel r" "wf_channel g" "wf_channel b"
  shows "wf_hex_color (rgb_to_hex (r, g, b))" "length (rgb_to_hex (r, g, b)) = 7"
  using fmt_02x_wf [OF assms(1)] fmt_02x_wf [OF assms(2)] fmt_02x_wf [OF assms(3)]
  by (simp_all add: rgb_to_hex_def wf_hex_color_def)

lemma color_blend_ok:
  assumes "getitem (rays d) (str_int ray_num) = Inr rd"
    and "getitem (planes d) (str_int plane_num) = Inr pd"
    and "wf_hex_color (r_color rd)" and "wf_hex_color (p_color pd)"
  shows "\<exists>cb. calculate_color_blend d ray_num plane_num s = Inr cb"
proof -
  from hex_to_rgb_wf [OF assms(3)] hex_to_rgb_wf [OF assms(4)] assms(1,2) show ?thesis
    by (auto simp: calculate_color_blend_def bind_r_def)
qed

text \<open>
  Claim C10. For a strength in \<open>[0, 1]\<close> and well-formed colours of the ray and the
  plane (\<open>#\<close> and six hexadecimal digits), \<open>_calculate_color_blend\<close> returns a
  record whose blended colour is \<open>rgb_to_hex\<close> of three channels in \<open>0..255\<close>, a
  string of exactly seven characters: \<open>#\<close> and six hexadecimal digits.
\<close>

theorem color_blend_well_formed:
  assumes "getitem (rays d) (str_int ray_num) = Inr rd"
    and "getitem (planes d) (str_int plane_num) = Inr pd"
    and "wf_hex_color (r_color rd)" and "wf_hex_color (p_color pd)"
    and "0 \<le> s" and "s \<le> 1"
  shows "\<exists>cb r g b. calculate_color_blend d ray_num plane_num s = Inr cb
           \<and> blended_color cb = rgb_to_hex (r, g, b)
           \<and> wf_channel r \<and> wf_channel g \<and> wf_channel b
           \<and> length (blended_color cb) = 7 \<and> wf_hex_color (blended_color cb)"
proof -
  from hex_to_rgb_wf [OF assms(3)] obtain r1 g1 b1 where
    ray: "hex_to_rgb (r_color rd) = Inr (r1, g1, b1)" "wf_channel r1" "wf_channel g1" "wf_channel b1"
    by blast
  from hex_to_rgb_wf [OF assms(4)] obtain r2 g2 b2 where
    pl: "hex_to_rgb (p_color pd) = Inr (r2, g2, b2)" "wf_channel r2" "wf_channel g2" "wf_channel b2"
    by blast
  let ?r = "blend_channel r1 r2 s" and ?g = "blend_channel g1 g2 s" and ?b = "blend_channel b1 b2 s"
  have ch: "wf_channel ?r" "wf_channel ?g" "wf_channel ?b"
    using ray pl assms(5,6) by (simp_all add: blend_channel_wf)
  have "calculate_color_blend d ray_num plane_num s =
          Inr \<lparr>ray_color = r_color rd, plane_color = p_color pd,
               blended_color = rgb_to_hex (?r, ?g, ?b), blend_strength = s\<rparr>"
    using assms(1,2) ray(1) pl(1) by (simp add: calculate_color_blend_def bind_r_def blended_rgb_def)
  then show ?thesis using ch rgb_to_hex_wf [OF ch] by auto
qed

text \<open>The hypotheses of C10 hold for ray 7 and plane 3 of the shipped data at strength 0.6.\<close>

theorem color_blend_well_formed_witness:
  "getitem (rays export_to_json) (str_int 7) = Inr (snd (SEVEN_RAYS ! 6))
   \<and> getitem (planes export_to_json) (str_int 3) = Inr (snd (SEVEN_PLANES ! 2))
   \<and> wf_hex_color (r_color (snd (SEVEN_RAYS ! 6))) \<and> wf_hex_color (p_color (snd (SEVEN_PLANES ! 2)))
   \<and> (0::real) \<le> 3 / 5 \<and> (3 / 5 ::real) \<le> 1
   \<and> (\<exists>cb r g b. calculate_color_blend export_to_json 7 3 (3 / 5) = Inr cb
           \<and> blended_color cb = rgb_to_hex (r, g, b)
           \<and> wf_channel r \<and> wf_channel g \<and> wf_channel b
           \<and> length (blended_color cb) = 7 \<and> wf_hex_color (blended_color cb))"
proof -
  have 1: "getitem (rays export_to_json) (str_int 7) = Inr (snd (SEVEN_RAYS ! 6))"
    by (simp add: getitem_def export_to_json_def SEVEN_RAYS_def str_int_digits)
  have 2: "getitem (planes export_to_json) (str_int 3) = Inr (snd (SEVEN_PLANES ! 2))"
    by (simp add: getitem_def export_to_json_def SEVEN_PLANES_def str_int_digits)
  have 3: "wf_hex_color (r_color (snd (SEVEN_RAYS ! 6)))"
    by (simp add: SEVEN_RAYS_def wf_hex_color_def is_hex_digit_def hex_digits_def)
  have 4: "wf_hex_color (p_color (snd (SEVEN_PLANES ! 2)))"
    by (simp add: SEVEN_PLANES_def wf_hex_color_def is_hex_digit_def hex_digits_def)
  have 5: "(0::real) \<le> 3 / 5" "(3 / 5 ::real) \<le> 1" by simp_all
  from color_blend_well_formed [OF 1 2 3 4 5] 1 2 3 4 5 show ?thesis by blast
qed

lemma shipped_ray:
  assumes "ray_num \<in> {1..7}"
  shows "\<exists>rd. getitem (rays export_to_json) (str_int ray_num) = Inr rd \<and> wf_hex_color (r_color rd)"
  using in_1_7 [OF assms]
  by (elim disjE)
     (simp_all add: getitem_def export_to_json_def SEVEN_RAYS_def str_int_digits
        wf_hex_color_def is_hex_digit_def hex_digits_def)

lemma shipped_plane:
  assumes "plane_num \<in> {1..7}"
  shows "\<exists>pd. getitem (planes export_to_json) (str_int plane_num) = Inr pd \<and> wf_hex_color (p_color pd)"
  using in_1_7 [OF assms]
  by (elim disjE)
     (simp_all add: getitem_def export_to_json_def SEVEN_PLANES_def str_int_digits
        wf_hex_color_def is_hex_digit_def hex_digits_def)

lemma interval_of_ray:
  assumes "ray_num \<in> {1..7}"
  shows "\<exists>iv. py_index intervals (ray_num - 1) = Inr iv"
  using assms by (simp add: py_index_def intervals_def Let_def)

lemma clamp_strength_range: "0 \<le> clamp_strength s \<and> clamp_strength s \<le> 1"
  by (simp add: clamp_strength_def)

lemma dynamic_strength_range:
  "0 \<le> dynamic_strength r p c cy \<and> dynamic_strength r p c cy \<le> 1"
  by (simp add: dynamic_strength_def Let_def clamp_strength_range)

lemma calculate_succeeds:
  assumes "ray_num \<in> {1..7}" and "plane_num \<in> {1..7}"
  shows "\<exists>cb fh ef. calculate_dynamic_relationship export_to_json ray_num plane_num ctx cycle =
      Inr \<lparr>ray = ray_num, plane = plane_num,
           strength = dynamic_strength ray_num plane_num ctx cycle, rel_context = ctx,
           cycle_phase = cycle,
           interaction_type = determine_interaction_type ray_num plane_num
             (dynamic_strength ray_num plane_num ctx cycle),
           color_blend = cb, frequency_harmony = fh, evolutionary_function = ef\<rparr>"
proof -
  let ?s = "dynamic_strength ray_num plane_num ctx cycle"
  from shipped_ray [OF assms(1)] obtain rd where
    rd: "getitem (rays export_to_json) (str_int ray_num) = Inr rd" "wf_hex_color (r_color rd)" by blast
  from shipped_plane [OF assms(2)] obtain pd where
    pd: "getitem (planes export_to_json) (str_int plane_num) = Inr pd" "wf_hex_color (p_color pd)" by blast
  from color_blend_ok [OF rd(1) pd(1) rd(2) pd(2)] dynamic_strength_range [of ray_num plane_num ctx cycle]
  obtain cb where cb: "calculate_color_blend export_to_json ray_num plane_num ?s = Inr cb" by blast
  from interval_of_ray [OF assms(1)] obtain iv where iv: "py_index intervals (ray_num - 1) = Inr iv" by blast
  have fh: "\<exists>fh. calculate_frequency_harmony export_to_json ray_num plane_num = Inr fh"
    using iv pd(1) by (simp add: calculate_frequency_harmony_def bind_r_def Let_def)
  have ef: "\<exists>ef. get_evolutionary_function export_to_json ray_num plane_num ctx = Inr ef"
    using rd(1) pd(1) by (simp add: get_evolutionary_function_def bind_r_def Let_def)
  from cb fh ef show ?thesis
    by (auto simp: calculate_dynamic_relationship_def bind_r_def Let_def)
qed

text \<open>
  Claim C1. For every ray and plane in \<open>1..7\<close>, every context and every cycle phase,
  \<open>calculate_dynamic_relationship\<close> on the shipped data returns a record, and its
  strength is the clamped value of base * context modifier * cycle modifier + bonus, so it
  lies between 0 and 1.
\<close>

theorem strength_in_unit_interval:
  assumes "ray_num \<in> {1..7}" and "plane_num \<in> {1..7}"
  shows "\<exists>rel. calculate_dynamic_relationship export_to_json ray_num plane_num ctx cycle = Inr rel
           \<and> strength rel =
               min (max (get_base_affinity ray_num plane_num
                         * get_context_modifier ray_num plane_num ctx
                         * get_cycle_modifier ray_num plane_num cycle
                         + get_fourth_emphasis_bonus ray_num plane_num) 0) 1
           \<and> 0 \<le> strength rel \<and> strength rel \<le> 1"
proof -
  from calculate_succeeds [OF assms, of ctx cycle] obtain rel where
    rel: "calculate_dynamic_relationship export_to_json ray_num plane_num ctx cycle = Inr rel"
         "strength rel = dynamic_strength ray_num plane_num ctx cycle"
    by force
  have "strength rel =
          min (max (get_base_affinity ray_num plane_num
                    * get_context_modifier ray_num plane_num ctx
                    * get_cycle_modifier ray_num plane_num cycle
                    + get_fourth_emphasis_bonus ray_num plane_num) 0) 1"
    using rel(2) by (simp add: dynamic_strength_def clamp_strength_def Let_def)
  moreover have "0 \<le> strength rel \<and> strength rel \<le> 1"
    using rel(2) dynamic_strength_range by simp
  ultimately show ?thesis using rel(1) by blast
qed

text \<open>C1 at ray 3, plane 5, context animal, cycle outgoing.\<close>

theorem strength_in_unit_interval_witness:
  "(3::int) \<in> {1..7} \<and> (5::int) \<in> {1..7}
   \<and> (\<exists>rel. calculate_dynamic_relationship export_to_json 3 5 ''animal'' ''outgoing'' = Inr rel
           \<and> strength rel =
               min (max (get_base_affinity 3 5 * get_context_modifier 3 5 ''animal''
                         * get_cycle_modifier 3 5 ''outgoing''
                         + get_fourth_emphasis_bonus 3 5) 0) 1
           \<and> 0 \<le> strength rel \<and> strength rel \<le> 1)"
proof -
  have h: "(3::int) \<in> {1..7}" "(5::int) \<in> {1..7}" by simp_all
  from strength_in_unit_interval [OF h, of "''animal''" "''outgoing''"] h show ?thesis by blast
qed

lemma four_four_parts:
  "get_base_affinity 4 4 = 1" "get_context_modifier 4 4 ''human'' = 13 / 10"
  "get_cycle_modifier 4 4 ''balanced'' = 1" "get_fourth_emphasis_bonus 4 4 = 2 / 10"
  by (simp_all add: get_base_affinity_def primary_pairs_def get_context_modifier_def contexts_def
        get_cycle_modifier_def get_fourth_emphasis_bonus_def)

text \<open>
  Claim C2. \<open>calculate_dynamic_relationship(4, 4, 'human', 'balanced')\<close> returns a record
  of strength exactly 1: base affinity 1, context modifier 1.3, cycle modifier 1, bonus 0.2,
  and 1 * 1.3 * 1 + 0.2 = 1.5 is clamped to 1.
\<close>

theorem fourth_ray_fourth_plane_human:
  "\<exists>rel. calculate_dynamic_relationship export_to_json 4 4 ''human'' ''balanced'' = Inr rel
     \<and> strength rel = 1
     \<and> get_base_affinity 4 4 = 1
     \<and> get_context_modifier 4 4 ''human'' = 13 / 10
     \<and> get_cycle_modifier 4 4 ''balanced'' = 1
     \<and> get_fourth_emphasis_bonus 4 4 = 2 / 10
     \<and> get_base_affinity 4 4 * get_context_modifier 4 4 ''human''
         * get_cycle_modifier 4 4 ''balanced'' + get_fourth_emphasis_bonus 4 4 = 15 / 10
     \<and> clamp_strength (15 / 10) = 1"
proof -
  have s: "dynamic_strength 4 4 ''human'' ''balanced'' = 1"
    by (simp add: dynamic_strength_def Let_def four_four_parts clamp_strength_def)
  have "(4::int) \<in> {1..7}" by simp
  from calculate_succeeds [OF this this, of "''human''" "''balanced''"] obtain rel where
    "calculate_dynamic_relationship export_to_json 4 4 ''human'' ''balanced'' = Inr rel"
    "strength rel = dynamic_strength 4 4 ''human'' ''balanced''"
    by force
  then show ?thesis using s by (auto simp: four_four_parts clamp_strength_def)
qed

lemma collect_all_Inr:
  assumes "\<forall>x \<in> set xs. \<exists>y. f x = Inr y \<and> Q x y"
  shows "\<exists>ys. collect (map f xs) = Inr ys \<and> list_all2 Q xs ys"
  using assms
proof (induction xs)
  case Nil
  then show ?case by simp
next
  case (Cons x xs)
  then obtain y ys where "f x = Inr y" "Q x y" "collect (map f xs) = Inr ys" "list_all2 Q xs ys"
    by auto
  then show ?case by simp
qed

lemma collect_members:
  "collect ms = Inr xs \<Longrightarrow> x \<in> set xs \<Longrightarrow> Inr x \<in> set ms"
  by (induction ms arbitrary: xs) (auto split: sum.splits)

lemma pairs_from_rel:
  "list_all2 (\<lambda>rp rel. ray rel = fst rp \<and> plane rel = snd rp) ps rels
     \<Longrightarrow> map (\<lambda>rel. (ray rel, plane rel)) rels = ps"
  by (induction rule: list_all2_induct) auto

lemma pair_position:
  assumes "r \<in> {1..7}" and "p \<in> {1..7}"
  shows "ray_plane_pairs ! nat (7 * (r - 1) + (p - 1)) = (r, p)"
  using in_1_7 [OF assms(1)] in_1_7 [OF assms(2)]
  by (elim disjE) (simp_all add: ray_plane_pairs_def)

lemma matrix_on_shipped_data:
  "\<exists>rels. generate_full_relationship_matrix export_to_json ctx = Inr rels
     \<and> map (\<lambda>rel. (ray rel, plane rel)) rels = ray_plane_pairs"
proof -
  let ?f = "\<lambda>rp. calculate_dynamic_relationship export_to_json (fst rp) (snd rp) ctx ''balanced''"
  have gen: "generate_full_relationship_matrix export_to_json ctx = collect (map ?f ray_plane_pairs)"
    by (simp add: generate_full_relationship_matrix_def ray_plane_pairs_def)
  have mem: "\<forall>rp \<in> set ray_plane_pairs. fst rp \<in> {1..7} \<and> snd rp \<in> {1..7}"
    by (simp add: ray_plane_pairs_def)
  have "\<forall>rp \<in> set ray_plane_pairs. \<exists>rel. ?f rp = Inr rel \<and> ray rel = fst rp \<and> plane rel = snd rp"
  proof
    fix rp assume "rp \<in> set ray_plane_pairs"
    with mem have "fst rp \<in> {1..7}" "snd rp \<in> {1..7}" by auto
    from calculate_succeeds [OF this, of ctx "''balanced''"]
    show "\<exists>rel. ?f rp = Inr rel \<and> ray rel = fst rp \<and> plane rel = snd rp" by force
  qed
  from collect_all_Inr [OF this] obtain rels where
    rels: "collect (map ?f ray_plane_pairs) = Inr rels"
      "list_all2 (\<lambda>rp rel. ray rel = fst rp \<and> plane rel = snd rp) ray_plane_pairs rels"
    by blast
  have m: "map (\<lambda>rel. (ray rel, plane rel)) rels = ray_plane_pairs"
    using rels(2) by (rule pairs_from_rel)
  from gen rels(1) m show ?thesis by simp
qed

text \<open>
  Claim C4. For every context, \<open>generate_full_relationship_matrix\<close> on the shipped data
  returns 49 records; their (ray, plane) pairs are the pairs of \<open>1..7\<close> times \<open>1..7\<close>
  without repetition, ray-major: the record at position \<open>7 * (ray - 1) + (plane - 1)\<close>
  has that ray and that plane.
\<close>

theorem full_matrix_is_product:
  "\<exists>rels. generate_full_relationship_matrix export_to_json ctx = Inr rels
     \<and> length rels = 49
     \<and> map (\<lambda>rel. (ray rel, plane rel)) rels = ray_plane_pairs
     \<and> distinct (map (\<lambda>rel. (ray rel, plane rel)) rels)
     \<and> set (map (\<lambda>rel. (ray rel, plane rel)) rels) = {1..7} \<times> {1..7}
     \<and> (\<forall>r \<in> {1..7}. \<forall>p \<in> {1..7}.
          ray (rels ! nat (7 * (r - 1) + (p - 1))) = r
          \<and> plane (rels ! nat (7 * (r - 1) + (p - 1))) = p)"
proof -
  from matrix_on_shipped_data [of ctx] obtain rels where
    g: "generate_full_relationship_matrix export_to_json ctx = Inr rels"
    and m: "map (\<lambda>rel. (ray rel, plane rel)) rels = ray_plane_pairs"
    by blast
  have mem: "\<forall>rp \<in> set ray_plane_pairs. fst rp \<in> {1..7} \<and> snd rp \<in> {1..7}"
    by (simp add: ray_plane_pairs_def)
  have len: "length rels = 49"
    using arg_cong [OF m, of length] by (simp add: ray_plane_pairs_def)
  have d: "distinct ray_plane_pairs" by (simp add: ray_plane_pairs_def)
  have st: "set ray_plane_pairs = {1..7} \<times> {1..7}"
  proof
    show "set ray_plane_pairs \<subseteq> {1..7} \<times> {1..7}" using mem by auto
    show "{1..7} \<times> {1..7} \<subseteq> set ray_plane_pairs"
    proof
      fix x :: "int \<times> int" assume "x \<in> {1..7} \<times> {1..7}"
      then have "fst x \<in> {1..7}" "snd x \<in> {1..7}" by auto
      from in_1_7 [OF this(1)] in_1_7 [OF this(2)] have "(fst x, snd x) \<in> set ray_plane_pairs"
        by (elim disjE) (simp_all add: ray_plane_pairs_def)
      then show "x \<in> set ray_plane_pairs" by simp
    qed
  qed
  have pos: "\<forall>r \<in> {1..7}. \<forall>p \<in> {1..7}.
          ray (rels ! nat (7 * (r - 1) + (p - 1))) = r
          \<and> plane (rels ! nat (7 * (r - 1) + (p - 1))) = p"
  proof (intro ballI)
    fix r p :: int assume rp: "r \<in> {1..7}" "p \<in> {1..7}"
    let ?i = "nat (7 * (r - 1) + (p - 1))"
    have i: "?i < length rels" using rp len by auto
    have "(map (\<lambda>rel. (ray rel, plane rel)) rels) ! ?i = (r, p)"
      using m pair_position [OF rp] by simp
    then show "ray (rels ! ?i) = r \<and> plane (rels ! ?i) = p" using i by simp
  qed
  have d': "distinct (map (\<lambda>rel. (ray rel, plane rel)) rels)" using m d by simp
  have st': "set (map (\<lambda>rel. (ray rel, plane rel)) rels) = {1..7} \<times> {1..7}"
    using m st by simp
  show ?thesis by (rule exI [of _ rels]) (intro conjI g len m d' st' pos)
qed

text \<open>C4 for the context human, at ray 3 and plane 5 (position 18).\<close>

theorem full_matrix_is_product_witness:
  "\<exists>rels. generate_full_relationship_matrix export_to_json ''human'' = Inr rels
     \<and> length rels = 49
     \<and> (3::int) \<in> {1..7} \<and> (5::int) \<in> {1..7}
     \<and> ray (rels ! 18) = 3 \<and> plane (rels ! 18) = 5"
proof -
  from full_matrix_is_product [of "''human''"] obtain rels where
    g: "generate_full_relationship_matrix export_to_json ''human'' = Inr rels" "length rels = 49"
    and p: "\<forall>r \<in> {1..7}. \<forall>p \<in> {1..7}.
          ray (rels ! nat (7 * (r - 1) + (p - 1))) = r
          \<and> plane (rels ! nat (7 * (r - 1) + (p - 1))) = p"
    by blast
  have h: "(3::int) \<in> {1..7}" "(5::int) \<in> {1..7}" by simp_all
  from p h have "ray (rels ! nat (7 * (3 - 1) + (5 - 1))) = 3 \<and> plane (rels ! nat (7 * (3 - 1) + (5 - 1))) = 5"
    by blast
  then have "ray (rels ! 18) = 3 \<and> plane (rels ! 18) = 5" by simp
  with g h show ?thesis by blast
qed

section \<open>Properties of the graph builder\<close>

lemma triple_ok_mono: "triple_ok I tr \<Longrightarrow> I \<subseteq> J \<Longrightarrow> triple_ok J tr"
  by (auto simp: triple_ok_def split: prod.splits)

lemma linked_extend:
  assumes "linked (es, ts)" and "set (entity_ids es) \<subseteq> set (entity_ids es')"
    and "\<forall>tr \<in> set new. triple_ok (set (entity_ids es')) tr"
  shows "linked (es', ts @ new)"
  using assms by (auto simp: linked_def intro: triple_ok_mono)

lemma add_keyword_linked:
  assumes "linked g" and "eid \<in> ids g"
  shows "linked (add_keyword eid g kw) \<and> ids g \<subseteq> ids (add_keyword eid g kw)"
proof -
  obtain es ts where g: "g = (es, ts)" by (cases g)
  let ?k = "''Quality_'' @ replace_space kw"
  let ?es' = "fst (add_keyword eid g kw)"
  have sub: "set (entity_ids es) \<subseteq> set (entity_ids ?es')"
    by (auto simp: g add_keyword_def Let_def entity_ids_def)
  have k: "?k \<in> set (entity_ids ?es')"
    by (auto simp: g add_keyword_def Let_def entity_ids_def)
  have e: "eid \<in> set (entity_ids ?es')" using assms(2) sub by (auto simp: ids_def g)
  have "add_keyword eid g kw = (?es', ts @ [(eid, ''embodies'', ?k)])"
    by (simp add: g add_keyword_def Let_def)
  moreover have "linked (?es', ts @ [(eid, ''embodies'', ?k)])"
    using assms(1) sub k e unfolding g by (intro linked_extend) (auto simp: triple_ok_def)
  ultimately show ?thesis using sub by (simp add: ids_def g)
qed

lemma add_keywords_linked:
  "linked g \<Longrightarrow> eid \<in> ids g \<Longrightarrow>
     linked (foldl (add_keyword eid) g kws) \<and> ids g \<subseteq> ids (foldl (add_keyword eid) g kws)"
proof (induction kws arbitrary: g)
  case Nil
  then show ?case by simp
next
  case (Cons kw kws)
  from add_keyword_linked [OF Cons.prems] have 1: "linked (add_keyword eid g kw)"
    and 2: "ids g \<subseteq> ids (add_keyword eid g kw)" by auto
  from Cons.prems(2) 2 have "eid \<in> ids (add_keyword eid g kw)" by auto
  from Cons.IH [OF 1 this] 2 show ?case by auto
qed

lemma add_ray_linked:
  assumes "linked g"
  shows "linked (add_ray g (k, rd)) \<and> ids g \<subseteq> ids (add_ray g (k, rd))
         \<and> ''Ray'' @ k \<in> ids (add_ray g (k, rd))"
proof -
  obtain es ts where g: "g = (es, ts)" by (cases g)
  let ?eid = "''Ray'' @ k"
  let ?e = "\<lparr>ent_id = ?eid, ent_label = ''Ray '' @ k @ '': '' @ r_name rd, ent_kind = ''Ray'',
            ent_color = r_color rd,
            ent_description = ''Ray '' @ k @ '' - '' @ r_name rd @ '': '' @ r_quality rd
              @ ''. Keywords: '' @ join '', '' (r_keywords rd)\<rparr>"
  let ?new = "[(?eid, ''hasName'', r_name rd), (?eid, ''hasQuality'', r_quality rd),
               (?eid, ''hasColor'', r_color rd), (?eid, ''hasPurpose'', r_purpose rd),
               (?eid, ''ruledBy'', r_planetary_ruler rd), (?eid, ''hasNote'', r_note rd),
               (?eid, ''hasElement'', r_element rd)]"
  let ?g1 = "(es @ [?e], ts @ ?new)"
  have step: "add_ray g (k, rd) = foldl (add_keyword ?eid) ?g1 (r_keywords rd)"
    by (simp add: g add_ray_def Let_def)
  have l1: "linked ?g1"
    using assms unfolding g
    by (intro linked_extend) (auto simp: triple_ok_def entity_ids_def attribute_relations_def)
  have i1: "?eid \<in> ids ?g1" "ids g \<subseteq> ids ?g1" by (auto simp: ids_def entity_ids_def g)
  from add_keywords_linked [OF l1 i1(1), of "r_keywords rd"] i1 step show ?thesis by auto
qed

lemma add_rays_linked:
  "linked g \<Longrightarrow>
     linked (foldl add_ray g items) \<and> ids g \<subseteq> ids (foldl add_ray g items)
     \<and> (\<forall>k \<in> fst ` set items. ''Ray'' @ k \<in> ids (foldl add_ray g items))"
proof (induction items arbitrary: g)
  case Nil
  then show ?case by simp
next
  case (Cons it items)
  obtain k rd where it: "it = (k, rd)" by (cases it)
  from add_ray_linked [OF Cons.prems, of k rd] have 1: "linked (add_ray g it)"
    and 2: "ids g \<subseteq> ids (add_ray g it)" and 3: "''Ray'' @ k \<in> ids (add_ray g it)"
    by (auto simp: it)
  from Cons.IH [OF 1] 2 3 show ?case by (auto simp: it)
qed

lemma add_alt_name_linked:
  assumes "linked g" and "eid \<in> ids g"
  shows "linked (add_alt_name eid g nm) \<and> ids g \<subseteq> ids (add_alt_name eid g nm)"
proof -
  obtain es ts where g: "g = (es, ts)" by (cases g)
  let ?k = "''Name_'' @ replace_space nm"
  let ?es' = "fst (add_alt_name eid g nm)"
  have sub: "set (entity_ids es) \<subseteq> set (entity_ids ?es')"
    by (auto simp: g add_alt_name_def Let_def entity_ids_def)
  have k: "?k \<in> set (entity_ids ?es')"
    by (auto simp: g add_alt_name_def Let_def entity_ids_def)
  have e: "eid \<in> set (entity_ids ?es')" using assms(2) sub by (auto simp: ids_def g)
  have "add_alt_name eid g nm = (?es', ts @ [(eid, ''alsoKnownAs'', ?k)])"
    by (simp add: g add_alt_name_def Let_def)
  moreover have "linked (?es', ts @ [(eid, ''alsoKnownAs'', ?k)])"
    using assms(1) sub k e unfolding g by (intro linked_extend) (auto simp: triple_ok_def)
  ultimately show ?thesis using sub by (simp add: ids_def g)
qed

lemma add_alt_names_linked:
  "linked g \<Longrightarrow> eid \<in> ids g \<Longrightarrow>
     linked (foldl (add_alt_name eid) g nms) \<and> ids g \<subseteq> ids (foldl (add_alt_name eid) g nms)"
proof (induction nms arbitrary: g)
  case Nil
  then show ?case by simp
next
  case (Cons nm nms)
  from add_alt_name_linked [OF Cons.prems] have 1: "linked (add_alt_name eid g nm)"
    and 2: "ids g \<subseteq> ids (add_alt_name eid g nm)" by auto
  from Cons.prems(2) 2 have "eid \<in> ids (add_alt_name eid g nm)" by auto
  from Cons.IH [OF 1 this] 2 show ?case by auto
qed

lemma add_plane_linked:
  assumes "linked g"
  shows "linked (add_plane g (k, pd)) \<and> ids g \<subseteq> ids (add_plane g (k, pd))
         \<and> ''Plane'' @ k \<in> ids (add_plane g (k, pd))"
proof -
  obtain es ts where g: "g = (es, ts)" by (cases g)
  let ?eid = "''Plane'' @ k"
  let ?e = "\<lparr>ent_id = ?eid, ent_label = ''Plane '' @ k @ '': '' @ p_name pd, ent_kind = ''Plane'',
            ent_color = p_color pd,
            ent_description = ''Plane '' @ k @ '' - '' @ p_name pd @ '': ''
              @ p_consciousness_state pd @ ''. '' @ p_description pd\<rparr>"
  let ?new = "[(?eid, ''hasName'', p_name pd),
               (?eid, ''hasConsciousness'', p_consciousness_state pd),
               (?eid, ''hasElement'', p_element pd), (?eid, ''hasColor'', p_color pd),
               (?eid, ''hasGeometry'', p_geometric_form pd),
               (?eid, ''hasFrequency'', str_float (p_frequency pd))]"
  let ?g1 = "(es @ [?e], ts @ ?new)"
  have step: "add_plane g (k, pd) = foldl (add_alt_name ?eid) ?g1 (p_alternate_names pd)"
    by (simp add: g add_plane_def Let_def)
  have l1: "linked ?g1"
    using assms unfolding g
    by (intro linked_extend) (auto simp: triple_ok_def entity_ids_def attribute_relations_def)
  have i1: "?eid \<in> ids ?g1" "ids g \<subseteq> ids ?g1" by (auto simp: ids_def entity_ids_def g)
  from add_alt_names_linked [OF l1 i1(1), of "p_alternate_names pd"] i1 step show ?thesis by auto
qed

lemma add_planes_linked:
  "linked g \<Longrightarrow>
     linked (foldl add_plane g items) \<and> ids g \<subseteq> ids (foldl add_plane g items)
     \<and> (\<forall>k \<in> fst ` set items. ''Plane'' @ k \<in> ids (foldl add_plane g items))"
proof (induction items arbitrary: g)
  case Nil
  then show ?case by simp
next
  case (Cons it items)
  obtain k pd where it: "it = (k, pd)" by (cases it)
  from add_plane_linked [OF Cons.prems, of k pd] have 1: "linked (add_plane g it)"
    and 2: "ids g \<subseteq> ids (add_plane g it)" and 3: "''Plane'' @ k \<in> ids (add_plane g it)"
    by (auto simp: it)
  from Cons.IH [OF 1] 2 3 show ?case by (auto simp: it)
qed

lemma add_governed_linked:
  assumes "linked g" and "rid \<in> ids g" and "''Plane'' @ str_int n \<in> ids g"
  shows "linked (add_governed rid g n) \<and> ids (add_governed rid g n) = ids g"
proof -
  obtain es ts where g: "g = (es, ts)" by (cases g)
  have "linked (es, ts @ [(rid, ''primarily_governs'', ''Plane'' @ str_int n),
                          (''Plane'' @ str_int n, ''primarily_ruled_by'', rid)])"
    using assms unfolding g by (intro linked_extend) (auto simp: triple_ok_def ids_def)
  then show ?thesis by (simp add: g add_governed_def Let_def ids_def)
qed

lemma add_governed_all_linked:
  "linked g \<Longrightarrow> rid \<in> ids g \<Longrightarrow> \<forall>n \<in> set nums. ''Plane'' @ str_int n \<in> ids g \<Longrightarrow>
     linked (foldl (add_governed rid) g nums) \<and> ids (foldl (add_governed rid) g nums) = ids g"
proof (induction nums arbitrary: g)
  case Nil
  then show ?case by simp
next
  case (Cons n nums)
  from Cons.prems have "''Plane'' @ str_int n \<in> ids g" by simp
  from add_governed_linked [OF Cons.prems(1,2) this]
  have 1: "linked (add_governed rid g n)" and 2: "ids (add_governed rid g n) = ids g" by auto
  from Cons.IH [OF 1] Cons.prems 2 show ?case by simp
qed

lemma add_rulerships_linked:
  "linked g \<Longrightarrow>
   \<forall>it \<in> set items. ''Ray'' @ fst it \<in> ids g \<and> (\<forall>n \<in> set (snd it). ''Plane'' @ str_int n \<in> ids g) \<Longrightarrow>
     linked (foldl add_rulership g items) \<and> ids (foldl add_rulership g items) = ids g"
proof (induction items arbitrary: g)
  case Nil
  then show ?case by simp
next
  case (Cons it items)
  obtain k nums where it: "it = (k, nums)" by (cases it)
  from Cons.prems have a: "''Ray'' @ k \<in> ids g" "\<forall>n \<in> set nums. ''Plane'' @ str_int n \<in> ids g"
    by (auto simp: it)
  from add_governed_all_linked [OF Cons.prems(1) a]
  have 1: "linked (add_rulership g it)" and 2: "ids (add_rulership g it) = ids g"
    by (auto simp: add_rulership_def it)
  from Cons.IH [OF 1] Cons.prems(2) 2 show ?case by simp
qed

lemma add_fourth_linked:
  assumes "linked g" and "''Ray4'' \<in> ids g" and "''Plane4'' \<in> ids g"
  shows "linked (add_fourth g) \<and> ids g \<subseteq> ids (add_fourth g) \<and> ''Humanity'' \<in> ids (add_fourth g)"
proof -
  obtain es ts where g: "g = (es, ts)" by (cases g)
  have "linked (es @ fourth_entities, ts @ fourth_triples)"
    using assms unfolding g
    by (intro linked_extend)
       (auto simp: triple_ok_def ids_def entity_ids_def fourth_entities_def fourth_triples_def
          conflict_triple_def)
  then show ?thesis
    by (auto simp: g add_fourth_def ids_def entity_ids_def fourth_entities_def)
qed

lemma add_color_linked:
  assumes "linked g" and "''Ray'' @ str_int n \<in> ids g"
    and "getitem (rays d) (str_int n) = Inr rd"
  shows "\<exists>g'. add_color d g (c, n) = Inr g' \<and> linked g' \<and> ids g \<subseteq> ids g'"
proof -
  obtain es ts where g: "g = (es, ts)" by (cases g)
  let ?cid = "''Color_'' @ capitalize c"
  let ?e = "\<lparr>ent_id = ?cid, ent_label = capitalize c, ent_kind = ''Color'', ent_color = r_color rd,
             ent_description = ''Primary color '' @ c @ '' associated with divine expression''\<rparr>"
  let ?es' = "if ?cid \<notin> set (entity_ids es) then es @ [?e] else es"
  let ?g' = "(?es', ts @ [(''Ray'' @ str_int n, ''manifests_as'', ?cid)])"
  have step: "add_color d g (c, n) = Inr ?g'"
    using assms(3) by (simp add: g add_color_def Let_def bind_r_def)
  have sub: "set (entity_ids es) \<subseteq> set (entity_ids ?es')" by (auto simp: entity_ids_def)
  have cid: "?cid \<in> set (entity_ids ?es')" by (auto simp: entity_ids_def)
  have "linked ?g'"
    using assms(1,2) sub cid unfolding g
    by (intro linked_extend) (auto simp: triple_ok_def ids_def)
  with step sub show ?thesis by (auto simp: ids_def g)
qed

lemma add_colors_linked:
  "linked g \<Longrightarrow>
   \<forall>it \<in> set items. ''Ray'' @ str_int (snd it) \<in> ids g
       \<and> (\<exists>rd. getitem (rays d) (str_int (snd it)) = Inr rd) \<Longrightarrow>
     \<exists>g'. fold_r (add_color d) g items = Inr g' \<and> linked g' \<and> ids g \<subseteq> ids g'"
proof (induction items arbitrary: g)
  case Nil
  then show ?case by simp
next
  case (Cons it items)
  obtain c n where it: "it = (c, n)" by (cases it)
  from Cons.prems obtain rd where a: "''Ray'' @ str_int n \<in> ids g"
    "getitem (rays d) (str_int n) = Inr rd" by (auto simp: it)
  from add_color_linked [OF Cons.prems(1) a, of c] obtain g1 where
    1: "add_color d g (c, n) = Inr g1" "linked g1" "ids g \<subseteq> ids g1" by blast
  have "\<forall>it \<in> set items. ''Ray'' @ str_int (snd it) \<in> ids g1
       \<and> (\<exists>rd. getitem (rays d) (str_int (snd it)) = Inr rd)"
    using Cons.prems(2) 1(3) by auto
  from Cons.IH [OF 1(2) this] obtain g' where
    "fold_r (add_color d) g1 items = Inr g'" "linked g'" "ids g1 \<subseteq> ids g'" by blast
  with 1 show ?case by (auto simp: it)
qed

lemma add_dynamic_linked:
  assumes "linked g" and "''Ray'' @ str_int (ray rel) \<in> ids g"
    and "''Plane'' @ str_int (plane rel) \<in> ids g"
  shows "linked (add_dynamic g rel) \<and> ids (add_dynamic g rel) = ids g"
proof -
  obtain es ts where g: "g = (es, ts)" by (cases g)
  have "linked (es, ts @ [(''Ray'' @ str_int (ray rel), relation_of rel,
                          ''Plane'' @ str_int (plane rel))])"
    using assms unfolding g by (intro linked_extend) (auto simp: triple_ok_def ids_def)
  then show ?thesis using assms(1) by (simp add: g add_dynamic_def Let_def ids_def)
qed

lemma add_dynamics_linked:
  "linked g \<Longrightarrow>
   \<forall>rel \<in> set rels. ''Ray'' @ str_int (ray rel) \<in> ids g \<and> ''Plane'' @ str_int (plane rel) \<in> ids g \<Longrightarrow>
     linked (foldl add_dynamic g rels) \<and> ids (foldl add_dynamic g rels) = ids g"
proof (induction rels arbitrary: g)
  case Nil
  then show ?case by simp
next
  case (Cons rel rels)
  from Cons.prems have a: "''Ray'' @ str_int (ray rel) \<in> ids g"
    "''Plane'' @ str_int (plane rel) \<in> ids g" by auto
  from add_dynamic_linked [OF Cons.prems(1) a]
  have 1: "linked (add_dynamic g rel)" and 2: "ids (add_dynamic g rel) = ids g" by auto
  from Cons.IH [OF 1] Cons.prems(2) 2 show ?case by simp
qed

lemma add_quote_linked:
  assumes "linked g" and "''Ray4'' \<in> ids g" and "''Plane4'' \<in> ids g" and "''Humanity'' \<in> ids g"
  shows "linked (add_quote g (i, q)) \<and> ids g \<subseteq> ids (add_quote g (i, q))"
proof -
  obtain es ts where g: "g = (es, ts)" by (cases g)
  let ?qid = "''Quote_'' @ str_int (int i + 1)"
  let ?e = "\<lparr>ent_id = ?qid, ent_label = ''Bailey Quote '' @ str_int (int i + 1),
             ent_kind = ''Teaching'', ent_color = ''#E6E6FA'', ent_description = q\<rparr>"
  let ?new = "(if py_in ''fourth ray'' (lower q) then [(''Ray4'', ''described_by'', ?qid)] else [])
            @ (if py_in ''buddhic'' (lower q) then [(''Plane4'', ''described_by'', ?qid)] else [])
            @ (if py_in ''humanity'' (lower q) then [(''Humanity'', ''described_by'', ?qid)] else [])"
  have step: "add_quote g (i, q) = (es @ [?e], ts @ ?new)"
    by (simp add: g add_quote_def Let_def)
  have "linked (es @ [?e], ts @ ?new)"
    using assms unfolding g
    by (intro linked_extend) (auto simp: triple_ok_def ids_def entity_ids_def)
  with step show ?thesis by (auto simp: ids_def entity_ids_def g)
qed

lemma add_quotes_linked:
  "linked g \<Longrightarrow> ''Ray4'' \<in> ids g \<Longrightarrow> ''Plane4'' \<in> ids g \<Longrightarrow> ''Humanity'' \<in> ids g \<Longrightarrow>
     linked (foldl add_quote g qs)"
proof (induction qs arbitrary: g)
  case Nil
  then show ?case by simp
next
  case (Cons iq qs)
  obtain i q where iq: "iq = (i, q)" by (cases iq)
  from add_quote_linked [OF Cons.prems, of i q]
  have 1: "linked (add_quote g iq)" and 2: "ids g \<subseteq> ids (add_quote g iq)" by (auto simp: iq)
  from Cons.IH [OF 1] Cons.prems 2 show ?case by auto
qed

lemma shipped_ray_keys: "n \<in> {1..7} \<Longrightarrow> str_int n \<in> fst ` set (rays export_to_json)"
  by (drule in_1_7) (auto simp: export_to_json_def SEVEN_RAYS_def)

lemma shipped_plane_keys: "n \<in> {1..7} \<Longrightarrow> str_int n \<in> fst ` set (planes export_to_json)"
  by (drule in_1_7) (auto simp: export_to_json_def SEVEN_PLANES_def)

lemma shipped_rulerships:
  "it \<in> set (primary_rulerships export_to_json) \<Longrightarrow>
     (\<exists>k \<in> {1..7}. fst it = str_int k) \<and> set (snd it) \<subseteq> {1..7}"
  by (auto simp: export_to_json_def PRIMARY_RULERSHIPS_def)

lemma shipped_triad:
  "it \<in> set (primary_triad export_to_json) \<Longrightarrow> snd it \<in> {1..7}"
  by (auto simp: export_to_json_def PRIMARY_TRIAD_def)

lemma linked_empty: "linked ([], [])"
  by (simp add: linked_def)

lemma replace_space_spaceless: "CHR '' '' \<notin> set (replace_space s)"
  by (auto simp: replace_space_def)

lemma add_keyword_keeps:
  "set (snd g) \<subseteq> set (snd (add_keyword eid g kw))"
  "spaceless g \<Longrightarrow> spaceless (add_keyword eid g kw)"
  using replace_space_spaceless [of kw]
  by (cases g; auto simp: add_keyword_def Let_def spaceless_def entity_ids_def)+

lemma add_keywords_keeps:
  "set (snd g) \<subseteq> set (snd (foldl (add_keyword eid) g kws))
   \<and> (spaceless g \<longrightarrow> spaceless (foldl (add_keyword eid) g kws))"
proof (induction kws arbitrary: g)
  case Nil
  then show ?case by simp
next
  case (Cons kw kws)
  from Cons.IH [of "add_keyword eid g kw"] add_keyword_keeps [of g eid kw]
  show ?case by auto
qed

lemma add_ray_keeps:
  "set (snd g) \<subseteq> set (snd (add_ray g (k, rd)))"
  "(''Ray'' @ k, ''hasName'', r_name rd) \<in> set (snd (add_ray g (k, rd)))"
  "spaceless g \<Longrightarrow> CHR '' '' \<notin> set k \<Longrightarrow> spaceless (add_ray g (k, rd))"
proof -
  obtain es ts where g: "g = (es, ts)" by (cases g)
  let ?eid = "''Ray'' @ k"
  let ?e = "\<lparr>ent_id = ?eid, ent_label = ''Ray '' @ k @ '': '' @ r_name rd, ent_kind = ''Ray'',
            ent_color = r_color rd,
            ent_description = ''Ray '' @ k @ '' - '' @ r_name rd @ '': '' @ r_quality rd
              @ ''. Keywords: '' @ join '', '' (r_keywords rd)\<rparr>"
  let ?new = "[(?eid, ''hasName'', r_name rd), (?eid, ''hasQuality'', r_quality rd),
               (?eid, ''hasColor'', r_color rd), (?eid, ''hasPurpose'', r_purpose rd),
               (?eid, ''ruledBy'', r_planetary_ruler rd), (?eid, ''hasNote'', r_note rd),
               (?eid, ''hasElement'', r_element rd)]"
  let ?g1 = "(es @ [?e], ts @ ?new)"
  have step: "add_ray g (k, rd) = foldl (add_keyword ?eid) ?g1 (r_keywords rd)"
    by (simp add: g add_ray_def Let_def)
  have k: "set (snd ?g1) \<subseteq> set (snd (add_ray g (k, rd)))"
    and sp: "spaceless ?g1 \<longrightarrow> spaceless (add_ray g (k, rd))"
    using add_keywords_keeps [of ?g1 ?eid "r_keywords rd"] step by simp_all
  from k show "set (snd g) \<subseteq> set (snd (add_ray g (k, rd)))" by (auto simp: g)
  from k show "(''Ray'' @ k, ''hasName'', r_name rd) \<in> set (snd (add_ray g (k, rd)))" by auto
  show "spaceless (add_ray g (k, rd))" if "spaceless g" "CHR '' '' \<notin> set k"
  proof -
    have "spaceless ?g1" using that by (auto simp: g spaceless_def entity_ids_def)
    with sp show ?thesis by simp
  qed
qed

lemma add_rays_keeps:
  "set (snd g) \<subseteq> set (snd (foldl add_ray g items))
   \<and> (spaceless g \<longrightarrow> (\<forall>k \<in> fst ` set items. CHR '' '' \<notin> set k)
        \<longrightarrow> spaceless (foldl add_ray g items))"
proof (induction items arbitrary: g)
  case Nil
  then show ?case by simp
next
  case (Cons it items)
  obtain k rd where it: "it = (k, rd)" by (cases it)
  from Cons.IH [of "add_ray g it"] add_ray_keeps(1,3) [of g k rd]
  show ?case unfolding it by auto
qed

lemma add_alt_name_keeps:
  "set (snd g) \<subseteq> set (snd (add_alt_name eid g nm))"
  "spaceless g \<Longrightarrow> spaceless (add_alt_name eid g nm)"
  using replace_space_spaceless [of nm]
  by (cases g; auto simp: add_alt_name_def Let_def spaceless_def entity_ids_def)+

lemma add_alt_names_keeps:
  "set (snd g) \<subseteq> set (snd (foldl (add_alt_name eid) g nms))
   \<and> (spaceless g \<longrightarrow> spaceless (foldl (add_alt_name eid) g nms))"
proof (induction nms arbitrary: g)
  case Nil
  then show ?case by simp
next
  case (Cons nm nms)
  from Cons.IH [of "add_alt_name eid g nm"] add_alt_name_keeps [of g eid nm]
  show ?case by auto
qed

lemma add_plane_keeps:
  "set (snd g) \<subseteq> set (snd (add_plane g (k, pd)))"
  "spaceless g \<Longrightarrow> CHR '' '' \<notin> set k \<Longrightarrow> spaceless (add_plane g (k, pd))"
proof -
  obtain es ts where g: "g = (es, ts)" by (cases g)
  let ?eid = "''Plane'' @ k"
  let ?e = "\<lparr>ent_id = ?eid, ent_label = ''Plane '' @ k @ '': '' @ p_name pd, ent_kind = ''Plane'',
            ent_color = p_color pd,
            ent_description = ''Plane '' @ k @ '' - '' @ p_name pd @ '': ''
              @ p_consciousness_state pd @ ''. '' @ p_description pd\<rparr>"
  let ?new = "[(?eid, ''hasName'', p_name pd),
               (?eid, ''hasConsciousness'', p_consciousness_state pd),
               (?eid, ''hasElement'', p_element pd), (?eid, ''hasColor'', p_color pd),
               (?eid, ''hasGeometry'', p_geometric_form pd),
               (?eid, ''hasFrequency'', str_float (p_frequency pd))]"
  let ?g1 = "(es @ [?e], ts @ ?new)"
  have step: "add_plane g (k, pd) = foldl (add_alt_name ?eid) ?g1 (p_alternate_names pd)"
    by (simp add: g add_plane_def Let_def)
  have k: "set (snd ?g1) \<subseteq> set (snd (add_plane g (k, pd)))"
    and sp: "spaceless ?g1 \<longrightarrow> spaceless (add_plane g (k, pd))"
    using add_alt_names_keeps [of ?g1 ?eid "p_alternate_names pd"] step by simp_all
  from k show "set (snd g) \<subseteq> set (snd (add_plane g (k, pd)))" by (auto simp: g)
  show "spaceless (add_plane g (k, pd))" if "spaceless g" "CHR '' '' \<notin> set k"
  proof -
    have "spaceless ?g1" using that by (auto simp: g spaceless_def entity_ids_def)
    with sp show ?thesis by simp
  qed
qed

lemma add_planes_keeps:
  "set (snd g) \<subseteq> set (snd (foldl add_plane g items))
   \<and> (spaceless g \<longrightarrow> (\<forall>k \<in> fst ` set items. CHR '' '' \<notin> set k)
        \<longrightarrow> spaceless (foldl add_plane g items))"
proof (induction items arbitrary: g)
  case Nil
  then show ?case by simp
next
  case (Cons it items)
  obtain k pd where it: "it = (k, pd)" by (cases it)
  from Cons.IH [of "add_plane g it"] add_plane_keeps [of g k pd]
  show ?case unfolding it by auto
qed

lemma add_governed_all_keeps:
  "set (snd g) \<subseteq> set (snd (foldl (add_governed rid) g nums))
   \<and> fst (foldl (add_governed rid) g nums) = fst g"
proof (induction nums arbitrary: g)
  case Nil
  then show ?case by simp
next
  case (Cons n nums)
  have "set (snd g) \<subseteq> set (snd (add_governed rid g n)) \<and> fst (add_governed rid g n) = fst g"
    by (cases g) (auto simp: add_governed_def Let_def)
  with Cons.IH [of "add_governed rid g n"] show ?case by auto
qed

lemma add_rulerships_keeps:
  "set (snd g) \<subseteq> set (snd (foldl add_rulership g items))
   \<and> fst (foldl add_rulership g items) = fst g"
proof (induction items arbitrary: g)
  case Nil
  then show ?case by simp
next
  case (Cons it items)
  obtain k nums where it: "it = (k, nums)" by (cases it)
  from add_governed_all_keeps [of g "''Ray'' @ k" nums]
  have "set (snd g) \<subseteq> set (snd (add_rulership g it)) \<and> fst (add_rulership g it) = fst g"
    by (simp add: add_rulership_def it)
  with Cons.IH [of "add_rulership g it"] show ?case by auto
qed

lemma add_fourth_keeps:
  "set (snd g) \<subseteq> set (snd (add_fourth g))"
  "spaceless g \<Longrightarrow> spaceless (add_fourth g)"
  by (cases g; auto simp: add_fourth_def spaceless_def entity_ids_def fourth_entities_def)+

lemma add_color_keeps:
  assumes "add_color d g (c, n) = Inr g'"
  shows "set (snd g) \<subseteq> set (snd g')"
    and "spaceless g \<Longrightarrow> CHR '' '' \<notin> set (capitalize c) \<Longrightarrow> spaceless g'"
  using assms
  by (cases g; auto simp: add_color_def Let_def bind_r_def spaceless_def entity_ids_def
        split: if_splits sum.splits)+

lemma add_colors_keeps:
  "fold_r (add_color d) g items = Inr g' \<Longrightarrow>
     set (snd g) \<subseteq> set (snd g')
     \<and> (spaceless g \<longrightarrow> (\<forall>it \<in> set items. CHR '' '' \<notin> set (capitalize (fst it)))
          \<longrightarrow> spaceless g')"
proof (induction items arbitrary: g)
  case Nil
  then show ?case by simp
next
  case (Cons it items)
  obtain c n where it: "it = (c, n)" by (cases it)
  from Cons.prems obtain g1 where 1: "add_color d g (c, n) = Inr g1"
    and 2: "fold_r (add_color d) g1 items = Inr g'"
    by (auto simp: it split: sum.splits)
  from Cons.IH [OF 2] add_color_keeps [OF 1] show ?case unfolding it by auto
qed

lemma add_dynamics_keeps:
  "set (snd g) \<subseteq> set (snd (foldl add_dynamic g rels))
   \<and> fst (foldl add_dynamic g rels) = fst g"
proof (induction rels arbitrary: g)
  case Nil
  then show ?case by simp
next
  case (Cons rel rels)
  have "set (snd g) \<subseteq> set (snd (add_dynamic g rel)) \<and> fst (add_dynamic g rel) = fst g"
    by (cases g) (auto simp: add_dynamic_def Let_def)
  with Cons.IH [of "add_dynamic g rel"] show ?case by auto
qed

lemma add_quote_keeps:
  "set (snd g) \<subseteq> set (snd (add_quote g (i, q)))"
  "spaceless g \<Longrightarrow> CHR '' '' \<notin> set (str_int (int i + 1)) \<Longrightarrow> spaceless (add_quote g (i, q))"
  by (cases g; auto simp: add_quote_def Let_def spaceless_def entity_ids_def)+

lemma add_quotes_keeps:
  "set (snd g) \<subseteq> set (snd (foldl add_quote g qs))
   \<and> (spaceless g \<longrightarrow> (\<forall>iq \<in> set qs. CHR '' '' \<notin> set (str_int (int (fst iq) + 1)))
        \<longrightarrow> spaceless (foldl add_quote g qs))"
proof (induction qs arbitrary: g)
  case Nil
  then show ?case by simp
next
  case (Cons iq qs)
  obtain i q where iq: "iq = (i, q)" by (cases iq)
  from Cons.IH [of "add_quote g iq"] add_quote_keeps [of g i q]
  show ?case unfolding iq by auto
qed

lemma shipped_keys_spaceless:
  "\<forall>k \<in> fst ` set (rays export_to_json). CHR '' '' \<notin> set k"
  "\<forall>k \<in> fst ` set (planes export_to_json). CHR '' '' \<notin> set k"
  by (auto simp: export_to_json_def SEVEN_RAYS_def SEVEN_PLANES_def str_int_digits)

lemma shipped_colors_spaceless:
  "\<forall>it \<in> set (primary_triad export_to_json). CHR '' '' \<notin> set (capitalize (fst it))"
  by code_simp

lemma quote_numbers_spaceless:
  "\<forall>iq \<in> set (enumerate 0 bailey_quotes). CHR '' '' \<notin> set (str_int (int (fst iq) + 1))"
  by (auto simp: bailey_quotes_def str_int_digits)

lemma shipped_first_ray:
  "\<exists>rd rest. rays export_to_json = (''1'', rd) # rest \<and> r_name rd = ''Will or Power''"
  by (simp add: export_to_json_def SEVEN_RAYS_def str_int_digits)

lemma builder_on_shipped_data:
  assumes "\<forall>rel \<in> set (case human_rels of None \<Rightarrow> [] | Some rels \<Rightarrow> rels).
             ray rel \<in> {1..7} \<and> plane rel \<in> {1..7}"
  shows "\<exists>g. create_entities_and_triples export_to_json human_rels = Inr g
           \<and> linked g \<and> spaceless g
           \<and> (''Ray1'', ''hasName'', ''Will or Power'') \<in> set (snd g)"
proof -
  let ?d = export_to_json
  define rels where "rels = (case human_rels of None \<Rightarrow> [] | Some rels \<Rightarrow> rels)"
  define g1 where "g1 = foldl add_ray ([], []) (rays ?d)"
  define g2 where "g2 = foldl add_plane g1 (planes ?d)"
  define g3 where "g3 = foldl add_rulership g2 (primary_rulerships ?d)"
  define g4 where "g4 = add_fourth g3"
  from add_rays_linked [OF linked_empty, of "rays ?d"]
  have l1: "linked g1" and r1: "\<forall>k \<in> fst ` set (rays ?d). ''Ray'' @ k \<in> ids g1"
    by (simp_all add: g1_def)
  from add_planes_linked [OF l1, of "planes ?d"]
  have l2: "linked g2" and s2: "ids g1 \<subseteq> ids g2"
    and p2: "\<forall>k \<in> fst ` set (planes ?d). ''Plane'' @ k \<in> ids g2"
    by (simp_all add: g2_def)
  have rp2: "''Ray'' @ str_int n \<in> ids g2 \<and> ''Plane'' @ str_int n \<in> ids g2" if "n \<in> {1..7}" for n
    using shipped_ray_keys [OF that] shipped_plane_keys [OF that] r1 p2 s2 by blast
  have "\<forall>it \<in> set (primary_rulerships ?d).
          ''Ray'' @ fst it \<in> ids g2 \<and> (\<forall>n \<in> set (snd it). ''Plane'' @ str_int n \<in> ids g2)"
  proof
    fix it assume "it \<in> set (primary_rulerships ?d)"
    from shipped_rulerships [OF this] obtain k where
      k: "k \<in> {1..7}" "fst it = str_int k" and n: "set (snd it) \<subseteq> {1..7}" by blast
    show "''Ray'' @ fst it \<in> ids g2 \<and> (\<forall>n \<in> set (snd it). ''Plane'' @ str_int n \<in> ids g2)"
      using rp2 [OF k(1)] k(2) n rp2 by auto
  qed
  from add_rulerships_linked [OF l2 this]
  have l3: "linked g3" and i3: "ids g3 = ids g2" by (simp_all add: g3_def)
  have four: "(4::int) \<in> {1..7}" by simp
  from rp2 [OF four] i3 have f3: "''Ray4'' \<in> ids g3" "''Plane4'' \<in> ids g3"
    by (simp_all add: str_int_digits)
  from add_fourth_linked [OF l3 f3]
  have l4: "linked g4" and s4: "ids g3 \<subseteq> ids g4" and h4: "''Humanity'' \<in> ids g4"
    by (simp_all add: g4_def)
  have rp4: "''Ray'' @ str_int n \<in> ids g4 \<and> ''Plane'' @ str_int n \<in> ids g4" if "n \<in> {1..7}" for n
    using rp2 [OF that] i3 s4 by blast
  have "\<forall>it \<in> set (primary_triad ?d). ''Ray'' @ str_int (snd it) \<in> ids g4
           \<and> (\<exists>rd. getitem (rays ?d) (str_int (snd it)) = Inr rd)"
  proof
    fix it assume "it \<in> set (primary_triad ?d)"
    from shipped_triad [OF this] have n: "snd it \<in> {1..7}" .
    from rp4 [OF n] shipped_ray [OF n]
    show "''Ray'' @ str_int (snd it) \<in> ids g4
           \<and> (\<exists>rd. getitem (rays ?d) (str_int (snd it)) = Inr rd)" by blast
  qed
  from add_colors_linked [OF l4 this] obtain g5 where
    c5: "fold_r (add_color ?d) g4 (primary_triad ?d) = Inr g5" and l5: "linked g5"
    and s5: "ids g4 \<subseteq> ids g5" by blast
  define g6 where "g6 = foldl add_dynamic g5 rels"
  have "\<forall>rel \<in> set rels. ''Ray'' @ str_int (ray rel) \<in> ids g5
          \<and> ''Plane'' @ str_int (plane rel) \<in> ids g5"
    using assms rp4 s5 unfolding rels_def by blast
  from add_dynamics_linked [OF l5 this]
  have l6: "linked g6" and i6: "ids g6 = ids g5" by (simp_all add: g6_def)
  from rp4 [OF four] h4 s5 i6
  have f6: "''Ray4'' \<in> ids g6" "''Plane4'' \<in> ids g6" "''Humanity'' \<in> ids g6"
    by (auto simp: str_int_digits)
  define g7 where "g7 = foldl add_quote g6 (enumerate 0 bailey_quotes)"
  from add_quotes_linked [OF l6 f6] have l7: "linked g7" by (simp add: g7_def)
  have g6': "(case human_rels of None \<Rightarrow> g5 | Some rels \<Rightarrow> foldl add_dynamic g5 rels) = g6"
    by (simp add: g6_def rels_def split: option.splits)
  have res: "create_entities_and_triples ?d human_rels = Inr g7"
    using c5 g6'
    by (simp add: create_entities_and_triples_def Let_def bind_r_def
          g1_def [symmetric] g2_def [symmetric] g3_def [symmetric] g4_def [symmetric]
          g7_def [symmetric])
  have e0: "spaceless ([], [])" by (simp add: spaceless_def entity_ids_def)
  from add_rays_keeps [of "([], [])" "rays ?d"] e0 shipped_keys_spaceless(1)
  have sp1: "spaceless g1" by (simp add: g1_def)
  from shipped_first_ray obtain rd rest where
    fr: "rays ?d = (''1'', rd) # rest" "r_name rd = ''Will or Power''" by blast
  have "(''Ray'' @ ''1'', ''hasName'', r_name rd) \<in> set (snd (add_ray ([], []) (''1'', rd)))"
    by (rule add_ray_keeps(2))
  moreover have "set (snd (add_ray ([], []) (''1'', rd))) \<subseteq> set (snd g1)"
    using add_rays_keeps [of "add_ray ([], []) (''1'', rd)" rest] by (simp add: g1_def fr(1))
  ultimately have t1: "(''Ray1'', ''hasName'', ''Will or Power'') \<in> set (snd g1)"
    using fr(2) by auto
  from add_planes_keeps [of g1 "planes ?d"] sp1 shipped_keys_spaceless(2)
  have k2: "set (snd g1) \<subseteq> set (snd g2)" "spaceless g2" by (simp_all add: g2_def)
  from add_rulerships_keeps [of g2 "primary_rulerships ?d"] k2(2)
  have k3: "set (snd g2) \<subseteq> set (snd g3)" "spaceless g3"
    by (simp_all add: g3_def spaceless_def)
  from add_fourth_keeps [of g3] k3(2)
  have k4: "set (snd g3) \<subseteq> set (snd g4)" "spaceless g4" by (simp_all add: g4_def)
  from add_colors_keeps [OF c5] k4(2) shipped_colors_spaceless
  have k5: "set (snd g4) \<subseteq> set (snd g5)" "spaceless g5" by simp_all
  from add_dynamics_keeps [of g5 rels] k5(2)
  have k6: "set (snd g5) \<subseteq> set (snd g6)" "spaceless g6"
    by (simp_all add: g6_def spaceless_def)
  from add_quotes_keeps [of g6 "enumerate 0 bailey_quotes"] k6(2) quote_numbers_spaceless
  have k7: "set (snd g6) \<subseteq> set (snd g7)" "spaceless g7" by (simp_all add: g7_def)
  from t1 k2(1) k3(1) k4(1) k5(1) k6(1) k7(1)
  have t7: "(''Ray1'', ''hasName'', ''Will or Power'') \<in> set (snd g7)" by blast
  from res l7 k7(2) t7 show ?thesis by blast
qed

text \<open>
  Claim C3, as amended. On the shipped data, with the export file absent or holding
  records whose ray and plane are in \<open>1..7\<close>, the builder returns entities and
  triples such that the head of every triple is the id of a returned entity, and so is
  the tail of every triple other than the attribute triples (whose tails are literal
  values by design) and the single triple (Fourth_Bridge_Function, harmonizes, Conflict).
  That triple's tail is left out: the statement neither promises nor denies that it is
  an entity id.
\<close>

theorem triples_reference_entities:
  assumes "\<forall>rel \<in> set (case human_rels of None \<Rightarrow> [] | Some rels \<Rightarrow> rels).
             ray rel \<in> {1..7} \<and> plane rel \<in> {1..7}"
  shows "\<exists>entities triples.
           create_entities_and_triples export_to_json human_rels = Inr (entities, triples)
           \<and> (\<forall>(h, r, t) \<in> set triples.
                 h \<in> set (entity_ids entities)
                 \<and> (r \<notin> set attribute_relations
                    \<and> (h, r, t) \<noteq> (''Fourth_Bridge_Function'', ''harmonizes'', ''Conflict'')
                      \<longrightarrow> t \<in> set (entity_ids entities)))"
proof -
  from builder_on_shipped_data [OF assms] obtain g where
    res: "create_entities_and_triples export_to_json human_rels = Inr g" and l: "linked g"
    by blast
  obtain es ts where g: "g = (es, ts)" by (cases g)
  from l have "\<forall>(h, r, t) \<in> set ts.
                 h \<in> set (entity_ids es)
                 \<and> (r \<notin> set attribute_relations
                    \<and> (h, r, t) \<noteq> (''Fourth_Bridge_Function'', ''harmonizes'', ''Conflict'')
                      \<longrightarrow> t \<in> set (entity_ids es))"
    by (auto simp: g linked_def triple_ok_def conflict_triple_def)
  with res g show ?thesis by blast
qed

lemma matrix_in_range:
  "map (\<lambda>rel. (ray rel, plane rel)) rels = ray_plane_pairs \<Longrightarrow>
     \<forall>rel \<in> set rels. ray rel \<in> {1..7} \<and> plane rel \<in> {1..7}"
proof
  fix rel assume m: "map (\<lambda>rel. (ray rel, plane rel)) rels = ray_plane_pairs"
    and r: "rel \<in> set rels"
  from r have "(\<lambda>rel. (ray rel, plane rel)) rel \<in> (\<lambda>rel. (ray rel, plane rel)) ` set rels"
    by (rule imageI)
  then have "(ray rel, plane rel) \<in> set (map (\<lambda>rel. (ray rel, plane rel)) rels)" by simp
  with m have "(ray rel, plane rel) \<in> set ray_plane_pairs" by simp
  then show "ray rel \<in> {1..7} \<and> plane rel \<in> {1..7}" by (auto simp: ray_plane_pairs_def)
qed

text \<open>
  The amended C3 with the export file that the scorer writes for the context human:
  its records have ray and plane in \<open>1..7\<close>.
\<close>

theorem triples_reference_entities_witness:
  "\<exists>rels. generate_full_relationship_matrix export_to_json ''human'' = Inr rels
     \<and> (\<forall>rel \<in> set rels. ray rel \<in> {1..7} \<and> plane rel \<in> {1..7})
     \<and> (\<exists>entities triples.
           create_entities_and_triples export_to_json (Some rels) = Inr (entities, triples)
           \<and> (\<forall>(h, r, t) \<in> set triples.
                 h \<in> set (entity_ids entities)
                 \<and> (r \<notin> set attribute_relations
                    \<and> (h, r, t) \<noteq> (''Fourth_Bridge_Function'', ''harmonizes'', ''Conflict'')
                      \<longrightarrow> t \<in> set (entity_ids entities))))"
proof -
  from matrix_on_shipped_data [of "''human''"] obtain rels where
    g: "generate_full_relationship_matrix export_to_json ''human'' = Inr rels"
    and m: "map (\<lambda>rel. (ray rel, plane rel)) rels = ray_plane_pairs" by blast
  from matrix_in_range [OF m]
  have h: "\<forall>rel \<in> set rels. ray rel \<in> {1..7} \<and> plane rel \<in> {1..7}" .
  then have "\<forall>rel \<in> set (case Some rels of None \<Rightarrow> [] | Some rels \<Rightarrow> rels).
               ray rel \<in> {1..7} \<and> plane rel \<in> {1..7}" by simp
  from triples_reference_entities [OF this] g h show ?thesis by blast
qed

text \<open>
  Claim C3 as stated fails: without the export file the builder returns the triple
  (Ray1, hasName, Will or Power), whose tail is the id of no returned entity.
\<close>

theorem attribute_tail_is_no_entity:
  "\<not> isl (create_entities_and_triples export_to_json None)
   \<and> (''Ray1'', ''hasName'', ''Will or Power'')
        \<in> set (snd (projr (create_entities_and_triples export_to_json None)))
   \<and> ''Will or Power''
        \<notin> set (entity_ids (fst (projr (create_entities_and_triples export_to_json None))))"
proof -
  have "\<forall>rel \<in> set (case None of None \<Rightarrow> [] | Some rels \<Rightarrow> rels).
          ray rel \<in> {1..7} \<and> plane rel \<in> {1..7}" by simp
  from builder_on_shipped_data [OF this] obtain g where
    res: "create_entities_and_triples export_to_json None = Inr g" and sp: "spaceless g"
    and t: "(''Ray1'', ''hasName'', ''Will or Power'') \<in> set (snd g)" by blast
  have "CHR '' '' \<in> set ''Will or Power''" by simp
  with sp have "''Will or Power'' \<notin> set (entity_ids (fst g))" by (auto simp: spaceless_def)
  with res t show ?thesis by simp
qed

section \<open>Relations taken from the scorer's export\<close>

lemma scorer_interaction_type:
  "calculate_dynamic_relationship d r p c cy = Inr rel \<Longrightarrow>
     interaction_type rel = determine_interaction_type (ray rel) (plane rel) (strength rel)"
  by (auto simp: calculate_dynamic_relationship_def bind_r_def Let_def split: sum.splits)

lemma matrix_interaction_types:
  assumes "generate_full_relationship_matrix d ctx = Inr rels" and "rel \<in> set rels"
  shows "interaction_type rel = determine_interaction_type (ray rel) (plane rel) (strength rel)"
proof -
  from collect_members [OF assms [unfolded generate_full_relationship_matrix_def]]
  obtain r p where "calculate_dynamic_relationship d r p ctx ''balanced'' = Inr rel"
    by auto
  then show ?thesis by (rule scorer_interaction_type)
qed

lemma strong_relation:
  assumes "interaction_type rel = determine_interaction_type (ray rel) (plane rel) (strength rel)"
    and "strength rel > 6 / 10"
  shows "relation_of rel = ''flows_through'' \<or> relation_of rel = ''strongly_influences''"
  using assms by (simp add: relation_of_def relation_map_def determine_interaction_type_def)

lemma add_dynamic_appends:
  assumes "interaction_type rel = determine_interaction_type (ray rel) (plane rel) (strength rel)"
  shows "\<exists>one. add_dynamic (entities, triples) rel = (entities, triples @ one)
           \<and> (\<forall>tr \<in> set one. fst (snd tr) \<in> set strong_relations)"
proof (cases "strength rel > 6 / 10")
  case True
  let ?tr = "(''Ray'' @ str_int (ray rel), relation_of rel, ''Plane'' @ str_int (plane rel))"
  have "add_dynamic (entities, triples) rel = (entities, triples @ [?tr])"
    using True by (simp add: add_dynamic_def Let_def)
  moreover have "relation_of rel \<in> set strong_relations"
    using strong_relation [OF assms True] unfolding strong_relations_def by (elim disjE) simp_all
  ultimately show ?thesis by (intro exI [of _ "[?tr]"]) simp
next
  case False
  then have "add_dynamic (entities, triples) rel = (entities, triples @ [])"
    by (simp add: add_dynamic_def)
  then show ?thesis by (intro exI [of _ "[]"]) simp
qed

lemma add_dynamics_appends:
  assumes "\<forall>rel \<in> set rels.
             interaction_type rel = determine_interaction_type (ray rel) (plane rel) (strength rel)"
  shows "\<exists>new. foldl add_dynamic (entities, triples) rels = (entities, triples @ new)
           \<and> (\<forall>tr \<in> set new. fst (snd tr) \<in> set strong_relations)"
  using assms
proof (induction rels arbitrary: triples)
  case Nil
  have "foldl add_dynamic (entities, triples) [] = (entities, triples @ [])" by simp
  then show ?case by (intro exI [of _ "[]"]) simp
next
  case (Cons rel rels)
  from Cons.prems have "interaction_type rel =
      determine_interaction_type (ray rel) (plane rel) (strength rel)" by simp
  from add_dynamic_appends [OF this, of entities triples] obtain one where
    1: "add_dynamic (entities, triples) rel = (entities, triples @ one)"
    and o1: "\<forall>tr \<in> set one. fst (snd tr) \<in> set strong_relations" by blast
  from Cons.prems have "\<forall>rel \<in> set rels. interaction_type rel =
      determine_interaction_type (ray rel) (plane rel) (strength rel)" by simp
  from Cons.IH [OF this, of "triples @ one"] obtain new where
    2: "foldl add_dynamic (entities, triples @ one) rels = (entities, (triples @ one) @ new)"
    and o2: "\<forall>tr \<in> set new. fst (snd tr) \<in> set strong_relations" by blast
  from 1 2 have "foldl add_dynamic (entities, triples) (rel # rels)
                   = (entities, triples @ (one @ new))"
    by simp
  moreover from o1 o2 have "\<forall>tr \<in> set (one @ new). fst (snd tr) \<in> set strong_relations"
    by (simp add: ball_Un)
  ultimately show ?case by blast
qed

text \<open>
  Claim C9. When the export file holds a matrix written by the scorer, the loop over its
  records appends triples to the builder's list (and nothing else changes), and the
  relation of every appended triple is \<open>flows_through\<close> or
  \<open>strongly_influences\<close>: the labels \<open>interacts_with\<close>, \<open>resonates_with\<close>
  and \<open>relates_to\<close> never occur.
\<close>

theorem exported_relations_are_strong:
  assumes "generate_full_relationship_matrix d ctx = Inr rels"
  shows "\<exists>new. foldl add_dynamic (entities, triples) rels = (entities, triples @ new)
           \<and> (\<forall>(h, r, t) \<in> set new.
                 (r = ''flows_through'' \<or> r = ''strongly_influences'')
                 \<and> r \<noteq> ''interacts_with'' \<and> r \<noteq> ''resonates_with'' \<and> r \<noteq> ''relates_to'')"
proof -
  from matrix_interaction_types [OF assms]
  have "\<forall>rel \<in> set rels.
          interaction_type rel = determine_interaction_type (ray rel) (plane rel) (strength rel)"
    by blast
  from add_dynamics_appends [OF this, of entities triples] obtain new where
    n: "foldl add_dynamic (entities, triples) rels = (entities, triples @ new)"
       "\<forall>tr \<in> set new. fst (snd tr) \<in> set strong_relations" by blast
  have "(r = ''flows_through'' \<or> r = ''strongly_influences'')
          \<and> r \<noteq> ''interacts_with'' \<and> r \<noteq> ''resonates_with'' \<and> r \<noteq> ''relates_to''"
    if "r \<in> set strong_relations" for r
    using that unfolding strong_relations_def by (elim disjE | simp)+
  with n(2) have "\<forall>(h, r, t) \<in> set new.
                 (r = ''flows_through'' \<or> r = ''strongly_influences'')
                 \<and> r \<noteq> ''interacts_with'' \<and> r \<noteq> ''resonates_with'' \<and> r \<noteq> ''relates_to''"
    by fastforce
  with n(1) show ?thesis by blast
qed

text \<open>C9 for the matrix of the context human on the shipped data.\<close>

theorem exported_relations_are_strong_witness:
  "\<exists>rels. generate_full_relationship_matrix export_to_json ''human'' = Inr rels
     \<and> (\<exists>new. foldl add_dynamic ([], []) rels = ([], [] @ new)
           \<and> (\<forall>(h, r, t) \<in> set new.
                 (r = ''flows_through'' \<or> r = ''strongly_influences'')
                 \<and> r \<noteq> ''interacts_with'' \<and> r \<noteq> ''resonates_with'' \<and> r \<noteq> ''relates_to''))"
proof -
  from matrix_on_shipped_data [of "''human''"] obtain rels where
    g: "generate_full_relationship_matrix export_to_json ''human'' = Inr rels" by blast
  show ?thesis
    by (rule exI [of _ rels], rule conjI, rule g, rule exported_relations_are_strong [OF g])
qed

section \<open>Properties of fusion and of the fused table\<close>

lemma sum_squares_zero: "sum_list (map (\<lambda>x. x * x) v) = 0 \<longleftrightarrow> (\<forall>x \<in> set v. x = (0::real))"
proof (induction v)
  case Nil
  then show ?case by simp
next
  case (Cons a v)
  have s: "0 \<le> sum_list (map (\<lambda>x. x * x) v)" by (rule sum_list_nonneg) auto
  have q: "0 \<le> a * a" by simp
  from add_nonneg_eq_0_iff [OF q s] Cons.IH show ?case by simp
qed

lemma l2_norm_zero: "l2_norm v = 0 \<longleftrightarrow> (\<forall>x \<in> set v. x = 0)"
  by (simp add: l2_norm_def sum_squares_zero)

lemma normalize_nonzero:
  "list_ex (\<lambda>x. x \<noteq> 0) v \<Longrightarrow> normalize_row v = Inr (l2_normalized v)"
  by (auto simp: normalize_row_def l2_normalized_def l2_norm_zero list_ex_iff)

lemma normalize_all:
  "list_all (\<lambda>v. list_ex (\<lambda>x. x \<noteq> 0) v) rows \<Longrightarrow>
     collect (map normalize_row rows) = Inr (map l2_normalized rows)"
  by (induction rows) (simp_all add: normalize_nonzero)

lemma weighted_row:
  "map2 (+) (map (\<lambda>x. a * x) k) (map (\<lambda>x. b * x) t) = map2 (\<lambda>g t. a * g + b * t) k (t :: real list)"
  by (induction k arbitrary: t) (simp, case_tac t, simp_all)

lemma weighted_rows:
  "map2 (map2 (+)) (scale a K) (scale b T) = map2 (map2 (\<lambda>g t. a * g + b * t)) K T"
  unfolding scale_def
  by (induction K arbitrary: T) (simp, case_tac T, simp_all add: weighted_row)





lemma add_rows_same: "length A = length B \<Longrightarrow> add_rows A B = Inr (map2 (map2 (+)) A B)"
  by (simp add: add_rows_def)

lemma fused_general:
  assumes "length (vectors kg) = length (vectors text)" and "nonzero_rows kg"
  shows "create_fused_embeddings kg text alpha =
           Inr \<lparr>n_cols = min (n_cols kg) (n_cols text),
                vectors = map2 (map2 (\<lambda>g t. alpha * g + (1 - alpha) * t))
                            (map (take (min (n_cols kg) (n_cols text))) (map l2_normalized (vectors kg)))
                            (map (take (min (n_cols kg) (n_cols text))) (vectors text))\<rparr>"
proof -
  let ?m = "min (n_cols kg) (n_cols text)"
  let ?K = "map (take ?m) (map l2_normalized (vectors kg))"
  let ?T = "map (take ?m) (vectors text)"
  have n: "collect (map normalize_row (vectors kg)) = Inr (map l2_normalized (vectors kg))"
    using assms(2) by (simp add: normalize_all nonzero_rows_def)
  have "length (scale alpha ?K) = length (scale (1 - alpha) ?T)"
    using assms(1) by (simp add: scale_def)
  from add_rows_same [OF this] have add: "add_rows (scale alpha ?K) (scale (1 - alpha) ?T) =
                    Inr (map2 (map2 (\<lambda>g t. alpha * g + (1 - alpha) * t)) ?K ?T)"
    by (simp only: weighted_rows)
  show ?thesis
    unfolding create_fused_embeddings_def n Let_def
    by (simp only: bind_r_def sum.case add)
qed



lemma l2_norm_examples:
  "l2_norm [3, 4] = 5" "l2_norm [0, 2] = 2" "l2_norm [1] = 1" "l2_norm [1, 0] = 1"
  "l2_norm [0, 1] = 1"
proof -
  have "sqrt 25 = 5" by (rule real_sqrt_unique) simp_all
  then show "l2_norm [3, 4] = 5" by (simp add: l2_norm_def)
  have "sqrt 4 = 2" by (rule real_sqrt_unique) simp_all
  then show "l2_norm [0, 2] = 2" by (simp add: l2_norm_def)
  show "l2_norm [1] = 1" "l2_norm [1, 0] = 1" "l2_norm [0, 1] = 1" by (simp_all add: l2_norm_def)
qed


text \<open>
  Claim C6 does not hold of the code. After loading one entity with graph vector (3, 4)
  and text vector (1, 0), a visualization with weight 0.3 rebuilds the fused table; the
  next one with weight 0.6 leaves it as it is, because the code compares the weight with
  the default 0.6 and not with the previous weight. The table then holds the fusion for
  0.3, which differs from \<open>create_fused_embeddings(0.6)\<close>.
\<close>

theorem stale_fused_table:
  "(let nodes = [\<lparr>ent_id = ''Ray4'', ent_label = ''Ray 4: Harmony through Conflict'',
                   ent_kind = ''Ray'', ent_color = ''#00FF00'', ent_description = ''Ray 4''\<rparr>];
        kg = \<lparr>n_cols = 2, vectors = [[3, 4]]\<rparr>;
        text = \<lparr>n_cols = 2, vectors = [[1, 0]]\<rparr>;
        fused3 = \<lparr>n_cols = 2, vectors = [[22 / 25, 6 / 25]]\<rparr>;
        fused6 = \<lparr>n_cols = 2, vectors = [[19 / 25, 12 / 25]]\<rparr>;
        st0 = \<lparr>entities_df = nodes, kg_embeddings = kg, text_embeddings = text,
               fused_embeddings = fused6\<rparr>;
        st1 = \<lparr>entities_df = nodes, kg_embeddings = kg, text_embeddings = text,
               fused_embeddings = fused3\<rparr>
    in load_data nodes kg text = Inr st0
       \<and> create_visualization st0 ''2D'' (3 / 10) True ''kind'' = Inr st1
       \<and> create_visualization st1 ''2D'' (6 / 10) True ''kind'' = Inr st1
       \<and> create_fused_embeddings kg text (6 / 10) = Inr fused6
       \<and> fused_embeddings st1 \<noteq> fused6)"
proof -
  let ?kg = "\<lparr>n_cols = 2, vectors = [[3, 4 :: real]]\<rparr>"
  let ?text = "\<lparr>n_cols = 2, vectors = [[1, 0 :: real]]\<rparr>"
  have h: "length (vectors ?kg) = length (vectors ?text)" "nonzero_rows ?kg"
    by (simp_all add: nonzero_rows_def)
  have f: "create_fused_embeddings ?kg ?text alpha =
             Inr \<lparr>n_cols = 2, vectors = [[alpha * (3 / 5) + (1 - alpha), alpha * (4 / 5)]]\<rparr>"
    for alpha
    using fused_general [OF h, of alpha] by (simp add: l2_normalized_def l2_norm_examples)
  show ?thesis
    by (simp add: Let_def load_data_def create_visualization_def bind_r_def f)
qed

section \<open>Properties of the ranking\<close>







section \<open>Properties of the vector arithmetic\<close>

lemma matches_in_table: "idx \<in> set (matches st c) \<Longrightarrow> idx < length (entities_df st)"
  by (auto simp: matches_def)

lemma find_entity_embedding_aligned:
  assumes "length (entities_df st) \<le> length (vectors (fused_embeddings st))"
  shows "\<exists>r. find_entity_embedding st c = Inr r \<and> (matches st c = [] \<longrightarrow> r = None)"
proof (cases "matches st c")
  case Nil
  then show ?thesis by (simp add: find_entity_embedding_def)
next
  case (Cons idx rest)
  then have "idx \<in> set (matches st c)" by simp
  from matches_in_table [OF this] assms
  have "idx < length (entities_df st)" "idx < length (vectors (fused_embeddings st))" by simp_all
  then show ?thesis
    using Cons by (simp add: find_entity_embedding_def py_index_def bind_r_def)
qed

text \<open>
  Claim C8. When the fused table has a row for every entity and at least one of the two
  labels matches no entity, \<open>ray_plane_arithmetic\<close> returns the not-found message
  and raises nothing, whatever the operation.
\<close>

theorem unresolved_label_gives_message:
  assumes "length (entities_df st) \<le> length (vectors (fused_embeddings st))"
    and "matches st ray_concept = [] \<or> matches st plane_concept = []"
  shows "ray_plane_arithmetic argsort st ray_concept operation plane_concept =
           Inr (NotFound (''Could not find entities for '' @ [CHR 0x27] @ ray_concept
                          @ [CHR 0x27] @ '' or '' @ [CHR 0x27] @ plane_concept @ [CHR 0x27]))"
proof -
  from find_entity_embedding_aligned [OF assms(1), of ray_concept] obtain r where
    r: "find_entity_embedding st ray_concept = Inr r" "matches st ray_concept = [] \<longrightarrow> r = None"
    by blast
  from find_entity_embedding_aligned [OF assms(1), of plane_concept] obtain p where
    p: "find_entity_embedding st plane_concept = Inr p" "matches st plane_concept = [] \<longrightarrow> p = None"
    by blast
  from assms(2) r(2) p(2) have "r = None \<or> p = None" by blast
  then show ?thesis
    using r(1) p(1)
    by (auto simp: ray_plane_arithmetic_def bind_r_def split: option.splits prod.splits)
qed

text \<open>C8 for two entities, the unresolvable label Ray 99, the label plane 4 and addition.\<close>

theorem unresolved_label_gives_message_witness:
  "length (entities_df two_entity_state) \<le> length (vectors (fused_embeddings two_entity_state))
   \<and> matches two_entity_state ''Ray 99'' = []
   \<and> matches two_entity_state ''plane 4'' = [1]
   \<and> ray_plane_arithmetic stable_argsort two_entity_state ''Ray 99'' ''Add (+)'' ''plane 4''
     = Inr (NotFound (''Could not find entities for '' @ [CHR 0x27] @ ''Ray 99''
                      @ [CHR 0x27] @ '' or '' @ [CHR 0x27] @ ''plane 4'' @ [CHR 0x27]))"
proof -
  have e: "[0..<2] = [0, Suc 0]" by (simp add: upt_rec)
  have l: "lower ''Ray 99'' = ''ray 99''" "lower ''plane 4'' = ''plane 4''"
    "lower ''Ray 4: Harmony through Conflict'' = ''ray 4: harmony through conflict''"
    "lower ''Plane 4: Buddhic Plane'' = ''plane 4: buddhic plane''"
    by code_simp+
  have m1: "matches two_entity_state ''Ray 99'' = []"
    by (simp add: matches_def e l)
  have m2: "matches two_entity_state ''plane 4'' = [1]"
    by (simp add: matches_def e l)
  have h1: "length (entities_df two_entity_state)
              \<le> length (vectors (fused_embeddings two_entity_state))" by simp
  have h2: "matches two_entity_state ''Ray 99'' = [] \<or> matches two_entity_state ''plane 4'' = []"
    using m1 by simp
  from unresolved_label_gives_message [OF h1 h2, of stable_argsort "''Add (+)''"] h1 m1 m2
  show ?thesis by simp
qed

end
